theory Spec2Isabelle
  imports Main "HOL-Library.Word" "HOL-Library.Signed_Division"
begin

section \<open>The parts of Go's standard library that the middleware calls\<close>

text \<open>
  The package \<^verbatim>\<open>http_limiter\<close> is a single file: \<^verbatim>\<open>NewWithConfig\<close> resolves a
  configuration and returns a handler wrapper, and \<^verbatim>\<open>GetIP\<close> derives the default key.
  Both lean on \<^verbatim>\<open>strings\<close>, \<^verbatim>\<open>net\<close>, \<^verbatim>\<open>strconv\<close>, \<^verbatim>\<open>time\<close> and \<^verbatim>\<open>net/http\<close>. This
  section models the library functions that are called, on byte strings (a Go
  \<^verbatim>\<open>string\<close> is a sequence of bytes, here a \<open>char list\<close>).
\<close>

subsection \<open>strings\<close>

text \<open>
  \<^verbatim>\<open>strings.TrimSpace\<close> removes leading and trailing Unicode white space. In UTF-8 the
  white space code points are the six ASCII bytes (tab, LF, VT, FF, CR, space) and the
  multi-byte encodings of U+0085, U+00A0, U+1680, U+2000 to U+200A, U+2028, U+2029,
  U+202F, U+205F and U+3000.
\<close>

definition spaces :: "string list" where
  "spaces =
     map (\<lambda>c. [c]) [CHR 0x09, CHR 0x0A, CHR 0x0B, CHR 0x0C, CHR 0x0D, CHR 0x20]
     @ [[CHR 0xC2, CHR 0x85], [CHR 0xC2, CHR 0xA0], [CHR 0xE1, CHR 0x9A, CHR 0x80]]
     @ map (\<lambda>c. [CHR 0xE2, CHR 0x80, c])
         [CHR 0x80, CHR 0x81, CHR 0x82, CHR 0x83, CHR 0x84, CHR 0x85, CHR 0x86, CHR 0x87,
          CHR 0x88, CHR 0x89, CHR 0x8A, CHR 0xA8, CHR 0xA9, CHR 0xAF]
     @ [[CHR 0xE2, CHR 0x81, CHR 0x9F], [CHR 0xE3, CHR 0x80, CHR 0x80]]"

definition is_prefix :: "string \<Rightarrow> string \<Rightarrow> bool" where
  "is_prefix p s = (take (length p) s = p)"

text \<open>The white space sequence that \<open>s\<close> starts with, if any (none is empty).\<close>

definition leading_space :: "string list \<Rightarrow> string \<Rightarrow> string option" where
  "leading_space sps s = List.find (\<lambda>p. is_prefix p s) sps"

function trim_left :: "string list \<Rightarrow> string \<Rightarrow> string" where
  "trim_left sps s =
     (case leading_space sps s of
        None \<Rightarrow> s
      | Some p \<Rightarrow> if p = [] then s else trim_left sps (drop (length p) s))"
  by pat_completeness auto
termination
proof (relation "measure (\<lambda>(sps, s). length s)")
  show "wf (measure (\<lambda>(sps, s). length s))" by simp
next
  fix sps :: "string list" and s p :: string
  assume f: "leading_space sps s = Some p" and ne: "p \<noteq> []"
  from f have "is_prefix p s"
    by (auto simp: leading_space_def find_Some_iff)
  then have "take (length p) s = p" by (simp add: is_prefix_def)
  with ne have "s \<noteq> []" by auto
  with ne show "((sps, drop (length p) s), (sps, s)) \<in> measure (\<lambda>(sps, s). length s)"
    by (cases p) auto
qed

definition strings_TrimSpace :: "string \<Rightarrow> string" where
  "strings_TrimSpace s =
     rev (trim_left (map rev spaces) (rev (trim_left spaces s)))"

text \<open>
  \<^verbatim>\<open>strings.Index(s, sep)\<close>: the position of the first occurrence of \<open>sep\<close> in \<open>s\<close>.
\<close>

fun strings_Index :: "string \<Rightarrow> string \<Rightarrow> nat option" where
  "strings_Index [] sep = (if sep = [] then Some 0 else None)"
| "strings_Index (c # s) sep =
     (if is_prefix sep (c # s) then Some 0
      else map_option Suc (strings_Index s sep))"

text \<open>
  \<^verbatim>\<open>strings.SplitN(s, sep, n)\<close> for a non-empty separator and \<open>n > 0\<close>, which is how
  the source calls it (\<^verbatim>\<open>SplitN(ip, ",", 2)\<close>): at most \<open>n - 1\<close> cuts, the rest of the
  string is the last element; \<open>n = 0\<close> gives the empty slice.
\<close>

fun genSplit :: "string \<Rightarrow> string \<Rightarrow> nat \<Rightarrow> string list" where
  "genSplit s sep 0 = [s]"
| "genSplit s sep (Suc k) =
     (case strings_Index s sep of
        None \<Rightarrow> [s]
      | Some m \<Rightarrow> take m s # genSplit (drop (m + length sep) s) sep k)"

definition strings_SplitN :: "string \<Rightarrow> string \<Rightarrow> nat \<Rightarrow> string list" where
  "strings_SplitN s sep n = (if n = 0 then [] else genSplit s sep (n - 1))"

subsection \<open>strconv\<close>

definition digit :: "nat \<Rightarrow> char" where
  "digit d = char_of (of_char (CHR ''0'') + d)"

fun formatBits :: "nat \<Rightarrow> string" where
  "formatBits n = (if n < 10 then [digit n] else formatBits (n div 10) @ [digit (n mod 10)])"

text \<open>\<^verbatim>\<open>strconv.FormatInt(i, 10)\<close> and \<^verbatim>\<open>strconv.Itoa(i)\<close>: signed decimal.\<close>

definition strconv_FormatInt :: "int \<Rightarrow> string" where
  "strconv_FormatInt i = (if i < 0 then CHR ''-'' # formatBits (nat (- i)) else formatBits (nat i))"

definition strconv_Itoa :: "int \<Rightarrow> string" where
  "strconv_Itoa i = strconv_FormatInt i"

subsection \<open>errors\<close>

text \<open>
  A Go \<^verbatim>\<open>error\<close> is a value with a text. \<^verbatim>\<open>net.AddrError\<close> carries the reason and the
  address.
\<close>

datatype error = errors_New string | AddrError string string

fun Error :: "error \<Rightarrow> string" where
  "Error (errors_New s) = s"
| "Error (AddrError why addr) =
     (if addr \<noteq> [] then ''address '' @ addr @ '': '' @ why else why)"

text \<open>
  A panic carries a value: an error (\<^verbatim>\<open>panic(errors.New(...))\<close>) or a string
  (\<^verbatim>\<open>panic(fmt.Sprintf(...))\<close>); the runtime panics when a nil function value is called.
\<close>

datatype panic = Panic error | PanicString string | NilFuncCall

subsection \<open>net\<close>

type_synonym byte = "8 word"

text \<open>\<^verbatim>\<open>net.IP\<close> is a byte slice; \<open>None\<close> is the nil slice.\<close>

type_synonym IP = "byte list option"

definition big :: nat where
  "big = 0xFFFFFF"

text \<open>
  \<^verbatim>\<open>dtoi\<close>: decimal to integer; the number, the characters consumed, success. The loop
  stops with failure as soon as the number reaches \<open>big\<close>.
\<close>

definition is_digit :: "char \<Rightarrow> bool" where
  "is_digit c = (of_char (CHR ''0'') \<le> (of_char c :: nat) \<and> (of_char c :: nat) \<le> of_char (CHR ''9''))"

fun dtoi_loop :: "string \<Rightarrow> nat \<Rightarrow> nat \<Rightarrow> nat \<times> nat \<times> bool" where
  "dtoi_loop [] n i = (if i = 0 then (0, 0, False) else (n, i, True))"
| "dtoi_loop (c # s) n i =
     (if is_digit c then
        (let n' = n * 10 + (of_char c - of_char (CHR ''0'')) in
         if n' \<ge> big then (big, i, False) else dtoi_loop s n' (i + 1))
      else if i = 0 then (0, 0, False) else (n, i, True))"

definition dtoi :: "string \<Rightarrow> nat \<times> nat \<times> bool" where
  "dtoi s = dtoi_loop s 0 0"

definition v4InV6Prefix :: "byte list" where
  "v4InV6Prefix = [0, 0, 0, 0, 0, 0, 0, 0, 0, 0, 0xff, 0xff]"

definition IPv4 :: "byte \<Rightarrow> byte \<Rightarrow> byte \<Rightarrow> byte \<Rightarrow> byte list" where
  "IPv4 a b c d = v4InV6Prefix @ [a, b, c, d]"

text \<open>
  \<^verbatim>\<open>parseIPv4\<close>: four decimal fields of at most 255, separated by dots, and nothing
  else; a field of several digits must not start with a zero. The first argument counts
  the fields still to read, \<open>p\<close> holds the octets read so far. (The rule on the leading
  zero is the library's since Go 1.17; before, such a field was read as decimal. No
  statement below depends on it.)
\<close>

fun parseIPv4_loop :: "nat \<Rightarrow> bool \<Rightarrow> string \<Rightarrow> byte list \<Rightarrow> IP" where
  "parseIPv4_loop 0 first s p =
     (if s \<noteq> [] then None
      else case p of [a, b, c, d] \<Rightarrow> Some (IPv4 a b c d) | _ \<Rightarrow> None)"
| "parseIPv4_loop (Suc k) first s p =
     (if s = [] then None
      else if \<not> first \<and> hd s \<noteq> CHR ''.'' then None
      else
        (let s1 = (if first then s else tl s) in
         case dtoi s1 of (n, c, ok) \<Rightarrow>
           if \<not> ok \<or> n > 0xFF then None
           else if c > 1 \<and> hd s1 = CHR ''0'' then None
           else parseIPv4_loop k False (drop c s1) (p @ [of_nat n])))"

definition parseIPv4 :: "string \<Rightarrow> IP" where
  "parseIPv4 s = parseIPv4_loop 4 True s []"

text \<open>
  \<^verbatim>\<open>net.ParseIP\<close> looks for the first dot or colon: a dot sends the whole string to
  \<^verbatim>\<open>parseIPv4\<close>, a colon to \<^verbatim>\<open>parseIPv6\<close>, neither gives nil. The IPv6 text parser
  and the IPv6 text form are library code that the repository only passes through; they
  are parameters of the model.
\<close>

definition net_ParseIP :: "(string \<Rightarrow> IP) \<Rightarrow> string \<Rightarrow> IP" where
  "net_ParseIP parseIPv6 s =
     (case List.find (\<lambda>c. c = CHR ''.'' \<or> c = CHR '':'') s of
        None \<Rightarrow> None
      | Some c \<Rightarrow> if c = CHR ''.'' then parseIPv4 s else parseIPv6 s)"

definition isZeros :: "byte list \<Rightarrow> bool" where
  "isZeros p = list_all (\<lambda>b. b = 0) p"

definition To4 :: "byte list \<Rightarrow> IP" where
  "To4 ip =
     (if length ip = 4 then Some ip
      else if length ip = 16 \<and> isZeros (take 10 ip) \<and> ip ! 10 = 0xff \<and> ip ! 11 = 0xff
      then Some (drop 12 ip)
      else None)"

definition ubtoa :: "byte \<Rightarrow> string" where
  "ubtoa v = formatBits (unat v)"

definition hexDigit :: "nat \<Rightarrow> char" where
  "hexDigit d = ''0123456789abcdef'' ! d"

definition hexString :: "byte list \<Rightarrow> string" where
  "hexString b = concat (map (\<lambda>v. [hexDigit (unat v div 16), hexDigit (unat v mod 16)]) b)"

text \<open>
  \<^verbatim>\<open>IP.String\<close>: the nil address prints as \<^verbatim>\<open><nil>\<close>, an IPv4 address (4 bytes, or 16
  bytes with the IPv4-in-IPv6 prefix) in dotted decimal, a slice of any other length but
  16 as \<^verbatim>\<open>?\<close> and its hexadecimal bytes, and an IPv6 address in its text form.
\<close>

definition IP_String :: "(byte list \<Rightarrow> string) \<Rightarrow> IP \<Rightarrow> string" where
  "IP_String ipv6_String ip =
     (case ip of
        None \<Rightarrow> ''<nil>''
      | Some p \<Rightarrow>
          if p = [] then ''<nil>''
          else
            (case To4 p of
               Some [a, b, c, d] \<Rightarrow>
                 ubtoa a @ ''.'' @ ubtoa b @ ''.'' @ ubtoa c @ ''.'' @ ubtoa d
             | _ \<Rightarrow> (if length p \<noteq> 16 then ''?'' @ hexString p else ipv6_String p)))"

definition IndexByteString :: "string \<Rightarrow> char \<Rightarrow> nat option" where
  "IndexByteString s c = (if c \<in> set s then Some (length (takeWhile (\<lambda>x. x \<noteq> c) s)) else None)"

text \<open>\<^verbatim>\<open>last(s, b)\<close>: the index of the last \<open>b\<close> in \<open>s\<close>.\<close>

definition last_index :: "string \<Rightarrow> char \<Rightarrow> nat option" where
  "last_index s c =
     (if c \<in> set s then Some (length s - 1 - length (takeWhile (\<lambda>x. x \<noteq> c) (rev s))) else None)"

definition missingPort :: string where
  "missingPort = ''missing port in address''"

definition tooManyColons :: string where
  "tooManyColons = ''too many colons in address''"

definition addrErr :: "string \<Rightarrow> string \<Rightarrow> error + (string \<times> string)" where
  "addrErr addr why = Inl (AddrError why addr)"

text \<open>
  The end of \<^verbatim>\<open>net.SplitHostPort\<close>, once the host is known: no opening bracket from
  position \<open>j\<close> on, no closing bracket from position \<open>k\<close> on; the port is what follows
  the last colon, at position \<open>i\<close>.
\<close>

definition SplitHostPort_end :: "string \<Rightarrow> string \<Rightarrow> nat \<Rightarrow> nat \<Rightarrow> nat \<Rightarrow> error + (string \<times> string)" where
  "SplitHostPort_end hostport host j k i =
     (if IndexByteString (drop j hostport) (CHR ''['') \<noteq> None
      then addrErr hostport (''unexpected '' @ [CHR 0x27, CHR ''['', CHR 0x27] @ '' in address'')
      else if IndexByteString (drop k hostport) (CHR '']'') \<noteq> None
      then addrErr hostport (''unexpected '' @ [CHR 0x27, CHR '']'', CHR 0x27] @ '' in address'')
      else Inr (host, drop (i + 1) hostport))"

definition net_SplitHostPort :: "string \<Rightarrow> error + (string \<times> string)" where
  "net_SplitHostPort hostport =
     (case last_index hostport (CHR '':'') of
        None \<Rightarrow> addrErr hostport missingPort
      | Some i \<Rightarrow>
          if hostport ! 0 = CHR ''['' then
            (case IndexByteString hostport (CHR '']'') of
               None \<Rightarrow>
                 addrErr hostport (''missing '' @ [CHR 0x27, CHR '']'', CHR 0x27] @ '' in address'')
             | Some e \<Rightarrow>
                 if e + 1 = length hostport then addrErr hostport missingPort
                 else if e + 1 = i then
                   SplitHostPort_end hostport (take (e - 1) (drop 1 hostport)) 1 (e + 1) i
                 else if hostport ! (e + 1) = CHR '':'' then addrErr hostport tooManyColons
                 else addrErr hostport missingPort)
          else
            (let host = take i hostport in
             if IndexByteString host (CHR '':'') \<noteq> None then addrErr hostport tooManyColons
             else SplitHostPort_end hostport host 0 0 i))"

subsection \<open>time\<close>

text \<open>
  A \<^verbatim>\<open>time.Time\<close> as the seconds since the Unix epoch and the nanoseconds within the
  second (\<open>0 \<le> nsec < 10\<^sup>9\<close>); a \<^verbatim>\<open>time.Duration\<close> is a signed count of nanoseconds.
  \<^verbatim>\<open>Time.Add\<close> splits the duration with Go's truncating division and remainder and
  carries between the two fields.
\<close>

record Time =
  sec :: int
  nsec :: int

type_synonym Duration = int

definition Time_Add :: "Time \<Rightarrow> Duration \<Rightarrow> Time" where
  "Time_Add t d =
     (let dsec = d sdiv 1000000000;
          ns = nsec t + d smod 1000000000
      in if ns \<ge> 1000000000 then \<lparr>sec = sec t + (dsec + 1), nsec = ns - 1000000000\<rparr>
         else if ns < 0 then \<lparr>sec = sec t + (dsec - 1), nsec = ns + 1000000000\<rparr>
         else \<lparr>sec = sec t + dsec, nsec = ns\<rparr>)"

definition Time_Unix :: "Time \<Rightarrow> int" where
  "Time_Unix t = sec t"

definition time_Minute :: Duration where
  "time_Minute = 60 * 1000000000"

subsection \<open>net/http\<close>

text \<open>
  An \<^verbatim>\<open>http.Header\<close> maps a canonical key to its values. \<^verbatim>\<open>Get\<close> and \<^verbatim>\<open>Set\<close>
  canonicalise the key they are given: the first letter and every letter after a dash in
  upper case, the others in lower case, unless the key holds a byte that is not a token
  character, which leaves it as it is.
\<close>

type_synonym Header = "string \<rightharpoonup> string list"

definition validHeaderFieldByte :: "char \<Rightarrow> bool" where
  "validHeaderFieldByte c =
     (c \<in> set (''!#$%&*+-.^_|~'' @ [CHR 0x27, CHR 0x60]
        @ ''0123456789'' @ ''ABCDEFGHIJKLMNOPQRSTUVWXYZ'' @ ''abcdefghijklmnopqrstuvwxyz''))"

definition is_lower :: "char \<Rightarrow> bool" where
  "is_lower c = (of_char (CHR ''a'') \<le> (of_char c :: nat) \<and> (of_char c :: nat) \<le> of_char (CHR ''z''))"

definition is_upper :: "char \<Rightarrow> bool" where
  "is_upper c = (of_char (CHR ''A'') \<le> (of_char c :: nat) \<and> (of_char c :: nat) \<le> of_char (CHR ''Z''))"

fun canonicalMIMEHeaderKey :: "bool \<Rightarrow> string \<Rightarrow> string" where
  "canonicalMIMEHeaderKey upper [] = []"
| "canonicalMIMEHeaderKey upper (c # a) =
     (let c' = (if upper \<and> is_lower c then char_of (of_char c - (32 :: nat))
                else if \<not> upper \<and> is_upper c then char_of (of_char c + (32 :: nat))
                else c)
      in c' # canonicalMIMEHeaderKey (c' = CHR ''-'') a)"

definition CanonicalMIMEHeaderKey :: "string \<Rightarrow> string" where
  "CanonicalMIMEHeaderKey s =
     (if list_all validHeaderFieldByte s then canonicalMIMEHeaderKey True s else s)"

definition Header_Get :: "Header \<Rightarrow> string \<Rightarrow> string" where
  "Header_Get h key =
     (case h (CanonicalMIMEHeaderKey key) of
        None \<Rightarrow> []
      | Some v \<Rightarrow> (case v of [] \<Rightarrow> [] | x # _ \<Rightarrow> x))"

definition Header_Set :: "Header \<Rightarrow> string \<Rightarrow> string \<Rightarrow> Header" where
  "Header_Set h key val = h(CanonicalMIMEHeaderKey key \<mapsto> [val])"

text \<open>The fields of an \<^verbatim>\<open>http.Request\<close> that the package or its callbacks can read.\<close>

record request =
  Method :: string
  URL :: string
  Header :: Header
  RemoteAddr :: string

text \<open>
  The interface \<^verbatim>\<open>http.ResponseWriter\<close> is modelled by the implementation that tests
  of a handler use, \<^verbatim>\<open>httptest.ResponseRecorder\<close>: \<open>header\<close> is the map that
  \<^verbatim>\<open>w.Header()\<close> returns, \<open>status\<close> the recorder's \<^verbatim>\<open>Code\<close>, \<open>sentHeader\<close> its
  snapshot of the header map, \<open>body\<close> its \<^verbatim>\<open>Body\<close>.
  \<^item> \<^verbatim>\<open>WriteHeader(code)\<close> does nothing once a header was written; otherwise it panics
    when the code is below 100 or above 999 (\<^verbatim>\<open>checkWriteHeaderCode\<close>), and else fixes
    the status and takes the snapshot of the header map.
  \<^item> \<^verbatim>\<open>Write(b)\<close>, when no header was written yet, first sets \<^verbatim>\<open>Content-Type\<close> to
    what \<^verbatim>\<open>http.DetectContentType\<close> finds in \<open>b\<close> (unless the map has a
    \<^verbatim>\<open>Content-Type\<close> key or a non-empty \<^verbatim>\<open>Transfer-Encoding\<close>) and writes the header
    with status 200; then it appends \<open>b\<close> to the body. The sniffing function is library
    code, a parameter here.

  The writer of a running server differs from the recorder in what it puts on the wire:
  it sends no body for a HEAD request or with a status 1xx, 204 or 304, treats a status
  1xx as an interim response (since Go 1.19), and adds headers of its own. Every
  statement below about status, body and headers sent is about the recorder.
\<close>

record ResponseWriter =
  header :: Header
  wroteHeader :: bool
  status :: int
  sentHeader :: Header
  body :: string

text \<open>\<^verbatim>\<open>httptest.NewRecorder()\<close>: an empty header map, code 200, an empty body.\<close>

definition NewRecorder :: ResponseWriter where
  "NewRecorder = \<lparr>header = Map.empty, wroteHeader = False, status = 200,
                   sentHeader = Map.empty, body = []\<rparr>"

definition checkWriteHeaderCode :: "int \<Rightarrow> panic option" where
  "checkWriteHeaderCode code =
     (if code < 100 \<or> code > 999
      then Some (PanicString (''invalid WriteHeader code '' @ strconv_FormatInt code))
      else None)"

definition WriteHeader :: "int \<Rightarrow> ResponseWriter \<Rightarrow> panic + ResponseWriter" where
  "WriteHeader code w =
     (if wroteHeader w then Inr w
      else case checkWriteHeaderCode code of
        Some p \<Rightarrow> Inl p
      | None \<Rightarrow> Inr (w\<lparr>wroteHeader := True, status := code, sentHeader := header w\<rparr>))"

text \<open>The recorder's \<^verbatim>\<open>writeHeader(b, "")\<close>, which \<^verbatim>\<open>Write\<close> calls first.\<close>

definition writeHeader :: "(string \<Rightarrow> string) \<Rightarrow> string \<Rightarrow> ResponseWriter \<Rightarrow> panic + ResponseWriter" where
  "writeHeader detectContentType b w =
     (if wroteHeader w then Inr w
      else
        (let hasType = (header w ''Content-Type'' \<noteq> None);
             hasTE = (Header_Get (header w) ''Transfer-Encoding'' \<noteq> []);
             w = (if \<not> hasType \<and> \<not> hasTE
                  then w\<lparr>header := Header_Set (header w) ''Content-Type'' (detectContentType b)\<rparr>
                  else w)
         in WriteHeader 200 w))"

definition Write :: "(string \<Rightarrow> string) \<Rightarrow> string \<Rightarrow> ResponseWriter \<Rightarrow> panic + ResponseWriter" where
  "Write detectContentType b w =
     (case writeHeader detectContentType b w of
        Inl p \<Rightarrow> Inl p
      | Inr w' \<Rightarrow> Inr (w'\<lparr>body := body w' @ b\<rparr>))"

text \<open>\<^verbatim>\<open>w.Header().Set(key, val)\<close>.\<close>

definition Set_header :: "ResponseWriter \<Rightarrow> string \<Rightarrow> string \<Rightarrow> ResponseWriter" where
  "Set_header w key val = w\<lparr>header := Header_Set (header w) key val\<rparr>"

definition StatusTooManyRequests :: int where
  "StatusTooManyRequests = 429"

definition StatusInternalServerError :: int where
  "StatusInternalServerError = 500"

text \<open>
  An \<^verbatim>\<open>http.Handler\<close> acts on the response writer it is given, or panics. (That is
  also the type of \<^verbatim>\<open>Config.Handler\<close>, a \<^verbatim>\<open>func(http.ResponseWriter, *http.Request)\<close>.)
\<close>

type_synonym Handler = "ResponseWriter \<Rightarrow> request \<Rightarrow> panic + ResponseWriter"

section \<open>The packages redis and go\_limiter\<close>

text \<open>
  The limiter and its store are not part of the repository. The model keeps the types
  the source builds and reads: the client handle, the \<^verbatim>\<open>Limit\<close> it passes, the fields
  of the \<^verbatim>\<open>Result\<close> it reads.
\<close>

datatype redis_Client = redis_NewClient string

record Limiter =
  rdb :: redis_Client

definition NewLimiter :: "redis_Client \<Rightarrow> Limiter" where
  "NewLimiter c = \<lparr>rdb = c\<rparr>"

record Limit =
  Limit_Period :: Duration
  Limit_Algorithm :: nat
  Rate :: int
  Limit_Burst :: int

record Result =
  Allowed :: bool
  Remaining :: int
  RetryAfter :: Duration
  ResetAfter :: Duration

text \<open>
  What the source takes from outside and the model cannot compute: the two algorithm
  constants of go\_limiter (their values are not in the repository), the IPv6 half of
  \<^verbatim>\<open>net.ParseIP\<close> and \<^verbatim>\<open>IP.String\<close>, \<^verbatim>\<open>http.DetectContentType\<close>, the answer of
  \<^verbatim>\<open>limiter.Allow\<close> (a decision or an error, depending on the store), and the clock.
\<close>

record env =
  SlidingWindowAlgorithm :: nat
  GCRAAlgorithm :: nat
  parseIPv6 :: "string \<Rightarrow> IP"
  ipv6_String :: "byte list \<Rightarrow> string"
  DetectContentType :: "string \<Rightarrow> string"
  limiter_Allow :: "Limiter \<Rightarrow> string \<Rightarrow> Limit \<Rightarrow> error + Result"
  time_Now :: Time

section \<open>The package http\_limiter\<close>

definition DefaultKeyPrefix :: string where
  "DefaultKeyPrefix = ''http_limiter''"

text \<open>
  \<^verbatim>\<open>Config\<close>. A field of function or pointer type is an option: \<open>None\<close> is Go's nil.
  \<^verbatim>\<open>Max\<close> is \<open>Max_n\<close> here. The skip predicate and the key function are functions of
  the request that return; the two handlers may panic.
\<close>

record Config =
  Skipper :: "(request \<Rightarrow> bool) option"
  Rediser :: "redis_Client option"
  Max_n :: int
  Burst :: int
  StatusCode :: int
  Message :: string
  Algorithm :: nat
  Prefix :: string
  SkipOnError :: bool
  Period :: Duration
  Key :: "(request \<Rightarrow> string) option"
  Handler :: "Handler option"
  ErrHandler :: "(error \<Rightarrow> Handler) option"

definition DefaultSkipper :: "request \<Rightarrow> bool" where
  "DefaultSkipper r = False"

text \<open>
  \<^verbatim>\<open>GetIP\<close>. The index \<^verbatim>\<open>parts[0]\<close> is always in range: a split in at most two parts
  has at least one (\<open>strings_SplitN_nonempty\<close> below).
\<close>

definition GetIP :: "env \<Rightarrow> request \<Rightarrow> IP" where
  "GetIP E r =
     (let ip = Header_Get (Header r) ''X-Forwarded-For'' in
      if ip \<noteq> [] then
        (let parts = strings_SplitN ip '','' 2;
             part = strings_TrimSpace (parts ! 0)
         in net_ParseIP (parseIPv6 E) part)
      else
        (let ip = strings_TrimSpace (Header_Get (Header r) ''X-Real-IP'') in
         if ip \<noteq> [] then net_ParseIP (parseIPv6 E) ip
         else
           (let remoteAddr = strings_TrimSpace (RemoteAddr r) in
            case net_SplitHostPort remoteAddr of
              Inl err \<Rightarrow> net_ParseIP (parseIPv6 E) remoteAddr
            | Inr (host, port) \<Rightarrow> net_ParseIP (parseIPv6 E) host)))"

text \<open>The function literal of \<^verbatim>\<open>DefaultConfig.Key\<close>.\<close>

definition DefaultConfig_Key :: "env \<Rightarrow> request \<Rightarrow> string" where
  "DefaultConfig_Key E r = IP_String (ipv6_String E) (GetIP E r)"

definition DefaultConfig :: "env \<Rightarrow> Config" where
  "DefaultConfig E =
     \<lparr>Skipper = Some DefaultSkipper,
      Rediser = None,
      Max_n = 10,
      Burst = 10,
      StatusCode = StatusTooManyRequests,
      Message = ''Too many requests, please try again later.'',
      Algorithm = SlidingWindowAlgorithm E,
      Prefix = DefaultKeyPrefix,
      SkipOnError = False,
      Period = time_Minute,
      Key = Some (DefaultConfig_Key E),
      Handler = None,
      ErrHandler = None\<rparr>"

text \<open>
  The two function literals of \<^verbatim>\<open>NewWithConfig\<close>: the reject handler and the error
  handler that it installs when none is given. The first reads the configuration it
  closes over.
\<close>

definition defaultHandler :: "env \<Rightarrow> Config \<Rightarrow> Handler" where
  "defaultHandler E config w r =
     (case WriteHeader (StatusCode config) w of
        Inl p \<Rightarrow> Inl p
      | Inr w \<Rightarrow> Write (DetectContentType E) (Message config) w)"

definition defaultErrHandler :: "env \<Rightarrow> error \<Rightarrow> Handler" where
  "defaultErrHandler E err w r =
     (case WriteHeader StatusInternalServerError w of
        Inl p \<Rightarrow> Inl p
      | Inr w \<Rightarrow> Write (DetectContentType E) (Error err) w)"

text \<open>
  The closure that \<^verbatim>\<open>NewWithConfig\<close> returns captures the resolved configuration, the
  limiter and the limit. Each conditional assignment
  \<^verbatim>\<open>if config.F == zero { config.F = DefaultConfig.F }\<close> is an update of the field \<open>F\<close>
  by the function that replaces the zero value and keeps any other.
\<close>

record middleware =
  config :: Config
  limiter :: Limiter
  limit :: Limit

definition NewWithConfig :: "env \<Rightarrow> Config \<Rightarrow> panic + middleware" where
  "NewWithConfig E config0 =
     (case Rediser config0 of
        None \<Rightarrow> Inl (Panic (errors_New ''redis client is missing''))
      | Some client \<Rightarrow>
         (let config = Skipper_update
                (\<lambda>v. if v = None then Skipper (DefaultConfig E) else v) config0;
              config = Max_n_update
                (\<lambda>v. if v = 0 then Max_n (DefaultConfig E) else v) config;
              config = Burst_update
                (\<lambda>v. if v = 0 then Burst (DefaultConfig E) else v) config;
              config = StatusCode_update
                (\<lambda>v. if v = 0 then StatusCode (DefaultConfig E) else v) config;
              config = Message_update
                (\<lambda>v. if v = [] then Message (DefaultConfig E) else v) config;
              config = Algorithm_update
                (\<lambda>v. if v = 0 then Algorithm (DefaultConfig E) else v) config;
              config = Prefix_update
                (\<lambda>v. if v = [] then Prefix (DefaultConfig E) else v) config;
              config = Period_update
                (\<lambda>v. if v = 0 then Period (DefaultConfig E) else v) config;
              config = Key_update
                (\<lambda>v. if v = None then Key (DefaultConfig E) else v) config;
              config = Handler_update
                (\<lambda>v. if v = None then Some (defaultHandler E config) else v) config;
              config = ErrHandler_update
                (\<lambda>v. if v = None then Some (defaultErrHandler E) else v) config;
              limiter = NewLimiter client;
              limit = \<lparr>Limit_Period = Period config,
                       Limit_Algorithm = Algorithm config,
                       Rate = Max_n config,
                       Limit_Burst = Burst config\<rparr>
          in Inr \<lparr>config = config, limiter = limiter, limit = limit\<rparr>))"

definition New :: "env \<Rightarrow> redis_Client option \<Rightarrow> panic + middleware" where
  "New E rediser = NewWithConfig E ((DefaultConfig E)\<lparr>Rediser := rediser\<rparr>)"

text \<open>
  One request through the handler that the middleware wraps around \<open>next\<close>. The result
  is what became of the response writer (its state when the handler returned, or the
  panic that ended the request) and the calls made to the collaborators, in order:
  \<^verbatim>\<open>limiter.Allow\<close> with its arguments and its answer, \<^verbatim>\<open>next.ServeHTTP\<close>,
  \<^verbatim>\<open>config.Handler\<close> and \<^verbatim>\<open>config.ErrHandler\<close> with the request (and the error) they
  are given.
\<close>

datatype call =
    CallAllow string Limit "error + Result"
  | CallNext request
  | CallHandler request
  | CallErrHandler error request

record exchange =
  resp :: "panic + ResponseWriter"
  calls :: "call list"

definition unixAfter :: "env \<Rightarrow> Duration \<Rightarrow> string" where
  "unixAfter E d = strconv_FormatInt (Time_Unix (Time_Add (time_Now E) d))"

definition ServeHTTP :: "env \<Rightarrow> middleware \<Rightarrow> Handler \<Rightarrow> ResponseWriter \<Rightarrow> request \<Rightarrow> exchange" where
  "ServeHTTP E m next w r =
     (case Skipper (config m) of
        None \<Rightarrow> \<lparr>resp = Inl NilFuncCall, calls = []\<rparr>
      | Some skipper \<Rightarrow>
          if skipper r then \<lparr>resp = next w r, calls = [CallNext r]\<rparr>
          else
            (case Key (config m) of
               None \<Rightarrow> \<lparr>resp = Inl NilFuncCall, calls = []\<rparr>
             | Some key \<Rightarrow>
                 (let answer = limiter_Allow E (limiter m) (key r) (limit m);
                      allow = CallAllow (key r) (limit m) answer
                  in case answer of
                    Inl err \<Rightarrow>
                      if SkipOnError (config m)
                      then \<lparr>resp = next w r, calls = [allow, CallNext r]\<rparr>
                      else
                        (case ErrHandler (config m) of
                           None \<Rightarrow> \<lparr>resp = Inl NilFuncCall, calls = [allow]\<rparr>
                         | Some errHandler \<Rightarrow>
                             \<lparr>resp = errHandler err w r,
                              calls = [allow, CallErrHandler err r]\<rparr>)
                  | Inr result \<Rightarrow>
                      if \<not> Allowed result then
                        (let w = Set_header w ''Retry-After'' (unixAfter E (RetryAfter result)) in
                         case Handler (config m) of
                           None \<Rightarrow> \<lparr>resp = Inl NilFuncCall, calls = [allow]\<rparr>
                         | Some handler \<Rightarrow>
                             \<lparr>resp = handler w r, calls = [allow, CallHandler r]\<rparr>)
                      else
                        (let w = Set_header w ''X-RateLimit-Limit'' (strconv_Itoa (Max_n (config m)));
                             w = Set_header w ''X-RateLimit-Remaining''
                                   (strconv_FormatInt (Remaining result));
                             w = Set_header w ''X-RateLimit-Reset'' (unixAfter E (ResetAfter result))
                         in \<lparr>resp = next w r, calls = [allow, CallNext r]\<rparr>))))"

text \<open>
  What \<^verbatim>\<open>main\<close> does with the package: build the middleware from a configuration, then
  serve a request with it. A panic of the construction leaves no handler to serve with.
\<close>

definition serve :: "env \<Rightarrow> Config \<Rightarrow> Handler \<Rightarrow> ResponseWriter \<Rightarrow> request \<Rightarrow> panic + exchange" where
  "serve E c next w r =
     (case NewWithConfig E c of
        Inl p \<Rightarrow> Inl p
      | Inr m \<Rightarrow> Inr (ServeHTTP E m next w r))"

text \<open>The configuration that the middleware holds after the construction.\<close>

definition resolved :: "env \<Rightarrow> Config \<Rightarrow> Config option" where
  "resolved E c = (case NewWithConfig E c of Inl p \<Rightarrow> None | Inr m \<Rightarrow> Some (config m))"



fun is_Allow :: "call \<Rightarrow> bool" where
  "is_Allow (CallAllow k l a) = True"
| "is_Allow c = False"


section \<open>Example values\<close>

text \<open>
  An environment in which the limiter gives the answer \<open>a\<close> whatever it is asked, the
  sliding window constant is \<open>sw\<close>, and the clock shows the time of the README's first
  response (\<^verbatim>\<open>Date: Fri, 03 Apr 2020 13:02:02 GMT\<close>), three seconds before its
  \<^verbatim>\<open>X-Ratelimit-Reset: 1585918925\<close>.
\<close>

definition example_env :: "nat \<Rightarrow> error + Result \<Rightarrow> env" where
  "example_env sw a =
     \<lparr>SlidingWindowAlgorithm = sw,
      GCRAAlgorithm = Suc sw,
      parseIPv6 = (\<lambda>s. None),
      ipv6_String = (\<lambda>b. ''::''),
      DetectContentType = (\<lambda>b. ''text/plain; charset=utf-8''),
      limiter_Allow = (\<lambda>l k lim. a),
      time_Now = \<lparr>sec = 1585918922, nsec = 250000000\<rparr>\<rparr>"

text \<open>The configuration of \<^verbatim>\<open>examples/main.go\<close>: every field but five is left zero.\<close>

definition example_config :: "env \<Rightarrow> Config" where
  "example_config E =
     \<lparr>Skipper = None,
      Rediser = Some (redis_NewClient ''redis://127.0.0.1:6379/0''),
      Max_n = 3,
      Burst = 3,
      StatusCode = 0,
      Message = [],
      Algorithm = GCRAAlgorithm E,
      Prefix = [],
      SkipOnError = False,
      Period = 10 * 1000000000,
      Key = None,
      Handler = None,
      ErrHandler = None\<rparr>"

text \<open>A configuration with the store handle and nothing else.\<close>

definition zero_config :: Config where
  "zero_config =
     \<lparr>Skipper = None,
      Rediser = Some (redis_NewClient ''redis://127.0.0.1:6379/0''),
      Max_n = 0,
      Burst = 0,
      StatusCode = 0,
      Message = [],
      Algorithm = 0,
      Prefix = [],
      SkipOnError = False,
      Period = 0,
      Key = None,
      Handler = None,
      ErrHandler = None\<rparr>"

definition example_request :: request where
  "example_request =
     \<lparr>Method = ''GET'', URL = ''/'', Header = Map.empty, RemoteAddr = ''192.0.2.1:54321''\<rparr>"

text \<open>
  Three answers of the limiter: the first request of the README is let through with two
  left; a later one is refused for two and a half seconds; the store is down.
\<close>

definition allowed_answer :: "error + Result" where
  "allowed_answer =
     Inr \<lparr>Allowed = True, Remaining = 2, RetryAfter = - 1, ResetAfter = 3333333333\<rparr>"

definition rejected_answer :: "error + Result" where
  "rejected_answer =
     Inr \<lparr>Allowed = False, Remaining = 0, RetryAfter = 2500000000, ResetAfter = 10000000000\<rparr>"

definition failed_answer :: "error + Result" where
  "failed_answer = Inl (errors_New ''dial tcp 127.0.0.1:6379: connect: connection refused'')"

text \<open>The inner handler of \<^verbatim>\<open>examples/main.go\<close>.\<close>

definition myHandler :: "env \<Rightarrow> Handler" where
  "myHandler E w r = Write (DetectContentType E) ''hello world'' w"

text \<open>The limit that the example configuration asks for, with the GCRA constant \<open>g\<close>.\<close>

definition example_limit :: "nat \<Rightarrow> Limit" where
  "example_limit g =
     \<lparr>Limit_Period = 10 * 1000000000, Limit_Algorithm = g, Rate = 3, Limit_Burst = 3\<rparr>"

section \<open>Properties of the library models\<close>

lemma strings_SplitN_nonempty: "0 < n \<Longrightarrow> strings_SplitN s sep n \<noteq> []"
  by (cases "n - 1") (auto simp: strings_SplitN_def split: option.splits)

lemma strings_Index_single:
  "strings_Index s [c] =
     (if c \<in> set s then Some (length (takeWhile (\<lambda>x. x \<noteq> c) s)) else None)"
  by (induction s) (auto simp: is_prefix_def)

lemma strings_SplitN_2: "strings_SplitN s sep 2 = genSplit s sep (Suc 0)"
  by (simp add: strings_SplitN_def)

text \<open>The first part of a split in two is what stands before the first separator.\<close>

lemma strings_SplitN_first:
  "strings_SplitN s [c] 2 ! 0 = takeWhile (\<lambda>x. x \<noteq> c) s"
proof (cases "c \<in> set s")
  case True
  have "take (length (takeWhile (\<lambda>x. x \<noteq> c) s)) s = takeWhile (\<lambda>x. x \<noteq> c) s"
    by (rule takeWhile_eq_take [symmetric])
  with True show ?thesis
    by (simp add: strings_SplitN_2 strings_Index_single)
next
  case False
  then have "takeWhile (\<lambda>x. x \<noteq> c) s = s"
    by (auto simp: takeWhile_eq_all_conv)
  moreover from False have "strings_SplitN s [c] 2 ! 0 = s"
    by (simp add: strings_SplitN_2 strings_Index_single)
  ultimately show ?thesis by (simp only:)
qed

text \<open>
  On a normalised time, \<^verbatim>\<open>t.Add(d).Unix()\<close> is the floor of the sum in seconds: the
  truncating division and the carry of \<^verbatim>\<open>Add\<close> together round down, also for a
  negative duration.
\<close>

lemma Time_Unix_Add:
  assumes "0 \<le> nsec t" "nsec t < 1000000000"
  shows "Time_Unix (Time_Add t d) = (sec t * 1000000000 + nsec t + d) div 1000000000"
proof -
  define q where "q = d sdiv 1000000000"
  define m where "m = d smod 1000000000"
  have d: "d = q * 1000000000 + m"
    unfolding q_def m_def by (simp add: sdiv_mult_smod_eq)
  have "m \<in> {- \<bar>1000000000::int\<bar> + 1..\<bar>1000000000\<bar> - 1}"
    unfolding m_def by (rule smod_int_range) simp
  then have m: "- 1000000000 < m" "m < 1000000000" by auto
  let ?ns = "nsec t + m"
  have tot: "sec t * 1000000000 + nsec t + d = (sec t + q) * 1000000000 + ?ns"
    by (simp add: d algebra_simps)
  consider "1000000000 \<le> ?ns" | "?ns < 0" | "0 \<le> ?ns" "?ns < 1000000000" by linarith
  then show ?thesis
  proof cases
    case 1
    have "(sec t + q) * 1000000000 + ?ns = (sec t + q + 1) * 1000000000 + (?ns - 1000000000)"
      by (simp add: algebra_simps)
    moreover have "((sec t + q + 1) * 1000000000 + (?ns - 1000000000)) div 1000000000 = sec t + q + 1"
      using 1 assms m by simp
    ultimately show ?thesis using 1
      by (simp add: Time_Unix_def Time_Add_def Let_def tot q_def [symmetric] m_def [symmetric])
  next
    case 2
    have "(sec t + q) * 1000000000 + ?ns = (sec t + q - 1) * 1000000000 + (?ns + 1000000000)"
      by (simp add: algebra_simps)
    moreover have "((sec t + q - 1) * 1000000000 + (?ns + 1000000000)) div 1000000000 = sec t + q - 1"
      using 2 assms m by simp
    ultimately show ?thesis using 2
      by (simp add: Time_Unix_def Time_Add_def Let_def tot q_def [symmetric] m_def [symmetric])
  next
    case 3
    have "((sec t + q) * 1000000000 + ?ns) div 1000000000 = sec t + q"
      using 3 by simp
    then show ?thesis using 3
      by (simp add: Time_Unix_def Time_Add_def Let_def tot q_def [symmetric] m_def [symmetric])
  qed
qed

lemma Time_Add_nsec:
  assumes "0 \<le> nsec t" "nsec t < 1000000000"
  shows "0 \<le> nsec (Time_Add t d) \<and> nsec (Time_Add t d) < 1000000000"
proof -
  have "d smod 1000000000 \<in> {- \<bar>1000000000::int\<bar> + 1..\<bar>1000000000\<bar> - 1}"
    by (rule smod_int_range) simp
  then show ?thesis using assms
    by (auto simp: Time_Add_def Let_def)
qed

lemma Header_Get_Set_same: "Header_Get (Header_Set h k v) k = v"
  by (simp add: Header_Get_def Header_Set_def)

lemma Header_Get_empty: "Header_Get Map.empty k = []"
  by (simp add: Header_Get_def)

section \<open>Properties of the package\<close>

subsection \<open>Key derivation\<close>

lemma GetIP_order:
  "GetIP E r =
     (let xff = Header_Get (Header r) ''X-Forwarded-For'';
          xri = strings_TrimSpace (Header_Get (Header r) ''X-Real-IP'');
          ra = strings_TrimSpace (RemoteAddr r)
      in if xff \<noteq> [] then
           net_ParseIP (parseIPv6 E) (strings_TrimSpace (takeWhile (\<lambda>c. c \<noteq> CHR '','') xff))
         else if xri \<noteq> [] then net_ParseIP (parseIPv6 E) xri
         else net_ParseIP (parseIPv6 E)
                (case net_SplitHostPort ra of Inl err \<Rightarrow> ra | Inr (host, port) \<Rightarrow> host))"
proof (cases "net_SplitHostPort (strings_TrimSpace (RemoteAddr r))")
  case (Inl e)
  then show ?thesis
    by (simp add: GetIP_def Let_def strings_SplitN_first)
next
  case (Inr hp)
  then show ?thesis
    by (cases hp) (simp add: GetIP_def Let_def strings_SplitN_first)
qed

subsection \<open>Construction\<close>

lemma defaultHandler_cong:
  "Message c1 = Message c2 \<Longrightarrow> StatusCode c1 = StatusCode c2 \<Longrightarrow>
     defaultHandler E c1 = defaultHandler E c2"
  by (simp add: fun_eq_iff defaultHandler_def cong: sum.case_cong)

lemma NewWithConfig_Inl:
  "NewWithConfig E c = Inl p \<longleftrightarrow>
     Rediser c = None \<and> p = Panic (errors_New ''redis client is missing'')"
  by (cases "Rediser c") (auto simp: NewWithConfig_def Let_def)

lemma NewWithConfig_Inr:
  "(\<exists>m. NewWithConfig E c = Inr m) \<longleftrightarrow> Rediser c \<noteq> None"
  by (cases "Rediser c") (simp_all add: NewWithConfig_def Let_def)

lemma NewWithConfig_config:
  assumes "NewWithConfig E c = Inr m"
  shows "Skipper (config m) = Some (case Skipper c of None \<Rightarrow> DefaultSkipper | Some s \<Rightarrow> s)"
    and "Rediser (config m) = Rediser c"
    and "Max_n (config m) = (if Max_n c = 0 then 10 else Max_n c)"
    and "Burst (config m) = (if Burst c = 0 then 10 else Burst c)"
    and "StatusCode (config m) = (if StatusCode c = 0 then 429 else StatusCode c)"
    and "Message (config m) =
           (if Message c = [] then ''Too many requests, please try again later.'' else Message c)"
    and "Algorithm (config m) = (if Algorithm c = 0 then SlidingWindowAlgorithm E else Algorithm c)"
    and "Prefix (config m) = (if Prefix c = [] then ''http_limiter'' else Prefix c)"
    and "SkipOnError (config m) = SkipOnError c"
    and "Period (config m) = (if Period c = 0 then 60000000000 else Period c)"
    and "Key (config m) = Some (case Key c of None \<Rightarrow> DefaultConfig_Key E | Some k \<Rightarrow> k)"
    and "ErrHandler (config m) =
           Some (case ErrHandler c of None \<Rightarrow> defaultErrHandler E | Some h \<Rightarrow> h)"
  using assms
  by (auto simp: NewWithConfig_def Let_def DefaultConfig_def StatusTooManyRequests_def
        DefaultKeyPrefix_def time_Minute_def split: option.splits)

lemma NewWithConfig_Handler:
  assumes "NewWithConfig E c = Inr m"
  shows "Handler (config m) =
           Some (case Handler c of None \<Rightarrow> defaultHandler E (config m) | Some h \<Rightarrow> h)"
proof -
  from assms obtain client where "Rediser c = Some client"
    by (cases "Rediser c") (simp_all add: NewWithConfig_def)
  with assms show ?thesis
    by (cases "Handler c")
      (auto simp: NewWithConfig_def Let_def intro!: defaultHandler_cong)
qed

lemma NewWithConfig_limit:
  assumes "NewWithConfig E c = Inr m"
  shows "limit m = \<lparr>Limit_Period = Period (config m), Limit_Algorithm = Algorithm (config m),
                     Rate = Max_n (config m), Limit_Burst = Burst (config m)\<rparr>"
    and "\<exists>client. Rediser c = Some client \<and> limiter m = NewLimiter client"
  using assms
  by (auto simp: NewWithConfig_def Let_def split: option.splits)

subsection \<open>One request\<close>

lemma ServeHTTP_resolved:
  assumes "Skipper (config m) = Some sk" "Key (config m) = Some key"
    and "Handler (config m) = Some h" "ErrHandler (config m) = Some eh"
  shows "ServeHTTP E m inner w r =
     (if sk r then \<lparr>resp = inner w r, calls = [CallNext r]\<rparr>
      else case limiter_Allow E (limiter m) (key r) (limit m) of
        Inl err \<Rightarrow>
          if SkipOnError (config m)
          then \<lparr>resp = inner w r,
                calls = [CallAllow (key r) (limit m) (Inl err), CallNext r]\<rparr>
          else \<lparr>resp = eh err w r,
                calls = [CallAllow (key r) (limit m) (Inl err), CallErrHandler err r]\<rparr>
      | Inr result \<Rightarrow>
          if Allowed result
          then \<lparr>resp = inner (Set_header (Set_header (Set_header w
                         ''X-RateLimit-Limit'' (strconv_Itoa (Max_n (config m))))
                         ''X-RateLimit-Remaining'' (strconv_FormatInt (Remaining result)))
                         ''X-RateLimit-Reset'' (unixAfter E (ResetAfter result))) r,
                calls = [CallAllow (key r) (limit m) (Inr result), CallNext r]\<rparr>
          else \<lparr>resp = h (Set_header w ''Retry-After'' (unixAfter E (RetryAfter result))) r,
                calls = [CallAllow (key r) (limit m) (Inr result), CallHandler r]\<rparr>)"
  using assms by (simp add: ServeHTTP_def Let_def split: sum.splits)

lemma canon_keys:
  "CanonicalMIMEHeaderKey ''X-RateLimit-Limit'' = ''X-Ratelimit-Limit''"
  "CanonicalMIMEHeaderKey ''X-RateLimit-Remaining'' = ''X-Ratelimit-Remaining''"
  "CanonicalMIMEHeaderKey ''X-RateLimit-Reset'' = ''X-Ratelimit-Reset''"
  "CanonicalMIMEHeaderKey ''Retry-After'' = ''Retry-After''"
  "CanonicalMIMEHeaderKey ''X-Forwarded-For'' = ''X-Forwarded-For''"
  "CanonicalMIMEHeaderKey ''X-Real-IP'' = ''X-Real-Ip''"
  "CanonicalMIMEHeaderKey ''Content-Type'' = ''Content-Type''"
  "CanonicalMIMEHeaderKey ''Transfer-Encoding'' = ''Transfer-Encoding''"
  by (simp_all add: CanonicalMIMEHeaderKey_def validHeaderFieldByte_def is_lower_def
        is_upper_def char_of_def bit_0 Let_def)

lemma Header_Get_Set:
  "Header_Get (Header_Set h k v) k' =
     (if CanonicalMIMEHeaderKey k' = CanonicalMIMEHeaderKey k then v else Header_Get h k')"
  by (simp add: Header_Get_def Header_Set_def)

lemma header_Set_header [simp]: "header (Set_header w k v) = Header_Set (header w) k v"
  and wroteHeader_Set_header [simp]: "wroteHeader (Set_header w k v) = wroteHeader w"
  and body_Set_header [simp]: "body (Set_header w k v) = body w"
  by (simp_all add: Set_header_def)

text \<open>
  What the two default handlers do to a writer that has not written its header: with a
  code from 100 to 999 the status line and the header map go out as they are, then the
  body; with any other code \<^verbatim>\<open>WriteHeader\<close> panics and \<^verbatim>\<open>Write\<close> is not reached.
\<close>

lemma WriteHeader_then_Write:
  assumes "\<not> wroteHeader w" and "100 \<le> code" and "code \<le> 999"
  shows "(case WriteHeader code w of Inl p \<Rightarrow> Inl p | Inr w' \<Rightarrow> Write d b w') =
           Inr (w\<lparr>wroteHeader := True, status := code, sentHeader := header w,
                   body := body w @ b\<rparr>)"
  using assms
  by (simp add: WriteHeader_def checkWriteHeaderCode_def Write_def writeHeader_def)

lemma defaultHandler_fresh:
  assumes "\<not> wroteHeader w" and "100 \<le> StatusCode cfg" and "StatusCode cfg \<le> 999"
  shows "defaultHandler E cfg w r =
           Inr (w\<lparr>wroteHeader := True, status := StatusCode cfg, sentHeader := header w,
                   body := body w @ Message cfg\<rparr>)"
  unfolding defaultHandler_def by (rule WriteHeader_then_Write [OF assms])

lemma defaultHandler_panics:
  assumes "\<not> wroteHeader w" and "StatusCode cfg < 100 \<or> 999 < StatusCode cfg"
  shows "defaultHandler E cfg w r =
           Inl (PanicString (''invalid WriteHeader code '' @ strconv_FormatInt (StatusCode cfg)))"
  using assms
  by (auto simp: defaultHandler_def WriteHeader_def checkWriteHeaderCode_def)

lemma defaultErrHandler_fresh:
  assumes "\<not> wroteHeader w"
  shows "defaultErrHandler E err w r =
           Inr (w\<lparr>wroteHeader := True, status := 500, sentHeader := header w,
                   body := body w @ Error err\<rparr>)"
  unfolding defaultErrHandler_def StatusInternalServerError_def
  by (rule WriteHeader_then_Write [OF assms]) simp_all

subsection \<open>Evaluating the examples\<close>

lemma parseIPv4_four: "parseIPv4 s = parseIPv4_loop (Suc (Suc (Suc (Suc 0)))) True s []"
  by (simp add: parseIPv4_def numeral_eq_Suc)

lemmas eval_ParseIP = net_ParseIP_def parseIPv4_four dtoi_def is_digit_def big_def

lemmas eval_IP_String = IP_String_def IPv4_def v4InV6Prefix_def To4_def isZeros_def ubtoa_def
  digit_def char_of_def bit_0

lemmas eval_SplitHostPort = net_SplitHostPort_def last_index_def IndexByteString_def
  SplitHostPort_end_def addrErr_def

lemmas eval_TrimSpace = strings_TrimSpace_def leading_space_def spaces_def is_prefix_def

lemmas eval_FormatInt = strconv_Itoa_def strconv_FormatInt_def digit_def char_of_def bit_0

lemma GetIP_example_request: "GetIP E example_request = net_ParseIP (parseIPv6 E) ''192.0.2.1''"
proof -
  have a: "strings_TrimSpace [] = []" by (simp add: eval_TrimSpace)
  have b: "strings_TrimSpace ''192.0.2.1:54321'' = ''192.0.2.1:54321''"
    by (simp add: eval_TrimSpace)
  have d: "net_SplitHostPort ''192.0.2.1:54321'' = Inr (''192.0.2.1'', ''54321'')"
    by (simp add: eval_SplitHostPort)
  show ?thesis
    unfolding GetIP_order example_request_def
    by (simp add: Header_Get_empty a b d)
qed

lemma DefaultConfig_Key_example_request:
  "DefaultConfig_Key E example_request = ''192.0.2.1''"
  unfolding DefaultConfig_Key_def GetIP_example_request
  by (simp add: eval_ParseIP eval_IP_String)

lemma example_times:
  "unixAfter (example_env sw a) 2500000000 = ''1585918924''"
  "unixAfter (example_env sw a) 3333333333 = ''1585918925''"
  by (simp_all add: unixAfter_def example_env_def Time_Add_def Time_Unix_def eval_FormatInt)

lemma myHandler_NewRecorder:
  "myHandler (example_env sw a) (NewRecorder\<lparr>header := h\<rparr>) r =
     Inr \<lparr>header = (if h ''Content-Type'' = None \<and> Header_Get h ''Transfer-Encoding'' = []
                     then Header_Set h ''Content-Type'' ''text/plain; charset=utf-8'' else h),
          wroteHeader = True, status = 200,
          sentHeader = (if h ''Content-Type'' = None \<and> Header_Get h ''Transfer-Encoding'' = []
                     then Header_Set h ''Content-Type'' ''text/plain; charset=utf-8'' else h),
          body = ''hello world''\<rparr>"
  by (simp add: myHandler_def Write_def writeHeader_def WriteHeader_def checkWriteHeaderCode_def
        NewRecorder_def example_env_def Let_def)

lemma serve_eq: "NewWithConfig E c = Inr m \<Longrightarrow> serve E c inner w r = Inr (ServeHTTP E m inner w r)"
  by (simp add: serve_def)

text \<open>The middleware that the example configuration gives, with some of its fields changed.\<close>

lemma example_middleware:
  assumes "Rediser c = Rediser (example_config E)" and "Skipper c = None" and "Key c = None"
    and "Max_n c = 3" and "Burst c = 3" and "Period c = 10 * 1000000000"
    and "Algorithm c = GCRAAlgorithm E" and "GCRAAlgorithm E \<noteq> 0"
  obtains m where "NewWithConfig E c = Inr m"
    and "Skipper (config m) = Some DefaultSkipper"
    and "Key (config m) = Some (DefaultConfig_Key E)"
    and "limit m = example_limit (GCRAAlgorithm E)"
proof -
  have "Rediser c \<noteq> None" using assms(1) by (simp add: example_config_def)
  then obtain m where m: "NewWithConfig E c = Inr m"
    using NewWithConfig_Inr [of E c] by blast
  show thesis
  proof (rule that [OF m])
    show "Skipper (config m) = Some DefaultSkipper"
      using NewWithConfig_config(1) [OF m] assms(2) by simp
    show "Key (config m) = Some (DefaultConfig_Key E)"
      using NewWithConfig_config(11) [OF m] assms(3) by simp
    show "limit m = example_limit (GCRAAlgorithm E)"
      using NewWithConfig_limit(1) [OF m] NewWithConfig_config(3,4,7,10) [OF m] assms(4-8)
      by (simp add: example_limit_def)
  qed
qed

lemma example_env_simps [simp]:
  "GCRAAlgorithm (example_env sw a) = Suc sw"
  "SlidingWindowAlgorithm (example_env sw a) = sw"
  "limiter_Allow (example_env sw a) l k lim = a"
  "DetectContentType (example_env sw a) b = ''text/plain; charset=utf-8''"
  by (simp_all add: example_env_def)

lemma example_config_simps [simp]:
  "Rediser (example_config E) = Some (redis_NewClient ''redis://127.0.0.1:6379/0'')"
  "Skipper (example_config E) = None" "Key (example_config E) = None"
  "Handler (example_config E) = None" "ErrHandler (example_config E) = None"
  "Max_n (example_config E) = 3" "Burst (example_config E) = 3"
  "Period (example_config E) = 10 * 1000000000"
  "Algorithm (example_config E) = GCRAAlgorithm E"
  "StatusCode (example_config E) = 0" "Message (example_config E) = []"
  "Prefix (example_config E) = []" "SkipOnError (example_config E) = False"
  by (simp_all add: example_config_def)

lemma DefaultSkipper_never [simp]: "\<not> DefaultSkipper r"
  by (simp add: DefaultSkipper_def)

section \<open>The claims\<close>

text \<open>
  C1. When the limiter answers with a decision that is not allowed, the middleware sets
  the response header \<^verbatim>\<open>Retry-After\<close> to the decimal Unix time of now plus the
  decision's retry-after duration, then calls the reject handler with that writer, and
  calls nothing else: the inner handler is not invoked. When the configuration gave no
  reject handler, the handler is the default one. On a recorder that has not written its
  header, the default handler leaves the configured status code (429 when left zero), the
  header map with \<^verbatim>\<open>Retry-After\<close> as the headers sent, and the configured message as the
  body, provided the status code lies between 100 and 999; with any other status code
  \<^verbatim>\<open>WriteHeader\<close> panics, and there is neither a status nor a body.
\<close>

theorem reject_sets_Retry_After_and_calls_Handler:
  assumes "NewWithConfig E c = Inr m"
    and "Skipper (config m) = Some skipper" and "\<not> skipper r"
    and "Key (config m) = Some key"
    and "limiter_Allow E (limiter m) (key r) (limit m) = Inr result"
    and "\<not> Allowed result"
  shows "\<exists>handler w'.
      Handler (config m) = Some handler
    \<and> w' = Set_header w ''Retry-After''
               (strconv_FormatInt (Time_Unix (Time_Add (time_Now E) (RetryAfter result))))
    \<and> Header_Get (header w') ''Retry-After'' =
          strconv_FormatInt (Time_Unix (Time_Add (time_Now E) (RetryAfter result)))
    \<and> ServeHTTP E m inner w r =
          \<lparr>resp = handler w' r,
           calls = [CallAllow (key r) (limit m) (Inr result), CallHandler r]\<rparr>
    \<and> (Handler c = None \<longrightarrow> handler = defaultHandler E (config m))
    \<and> (Handler c = None \<and> \<not> wroteHeader w
          \<and> 100 \<le> StatusCode (config m) \<and> StatusCode (config m) \<le> 999 \<longrightarrow>
        handler w' r =
          Inr (w'\<lparr>wroteHeader := True, status := StatusCode (config m),
                  sentHeader := header w', body := body w @ Message (config m)\<rparr>))
    \<and> (Handler c = None \<and> \<not> wroteHeader w
          \<and> (StatusCode (config m) < 100 \<or> 999 < StatusCode (config m)) \<longrightarrow>
        handler w' r =
          Inl (PanicString (''invalid WriteHeader code ''
                 @ strconv_FormatInt (StatusCode (config m)))))
    \<and> StatusCode (config m) = (if StatusCode c = 0 then 429 else StatusCode c)
    \<and> Message (config m) =
          (if Message c = [] then ''Too many requests, please try again later.'' else Message c)"
proof -
  define handler where
    "handler = (case Handler c of None \<Rightarrow> defaultHandler E (config m) | Some h \<Rightarrow> h)"
  define w' where "w' = Set_header w ''Retry-After''
               (strconv_FormatInt (Time_Unix (Time_Add (time_Now E) (RetryAfter result))))"
  have h: "Handler (config m) = Some handler"
    using NewWithConfig_Handler [OF assms(1)] by (simp add: handler_def)
  obtain eh where eh: "ErrHandler (config m) = Some eh"
    using NewWithConfig_config(12) [OF assms(1)] by simp
  have get: "Header_Get (header w') ''Retry-After'' =
          strconv_FormatInt (Time_Unix (Time_Add (time_Now E) (RetryAfter result)))"
    by (simp add: w'_def Header_Get_Set_same)
  have run: "ServeHTTP E m inner w r =
          \<lparr>resp = handler w' r,
           calls = [CallAllow (key r) (limit m) (Inr result), CallHandler r]\<rparr>"
    using assms(3,5,6)
    by (simp add: ServeHTTP_resolved [OF assms(2) assms(4) h eh] w'_def unixAfter_def)
  have dflt: "Handler c = None \<longrightarrow> handler = defaultHandler E (config m)"
    by (simp add: handler_def)
  have ok: "Handler c = None \<and> \<not> wroteHeader w
          \<and> 100 \<le> StatusCode (config m) \<and> StatusCode (config m) \<le> 999 \<longrightarrow>
        handler w' r =
          Inr (w'\<lparr>wroteHeader := True, status := StatusCode (config m),
                  sentHeader := header w', body := body w @ Message (config m)\<rparr>)"
  proof (intro impI, elim conjE)
    assume n: "Handler c = None" and fresh: "\<not> wroteHeader w"
      and lo: "100 \<le> StatusCode (config m)" and hi: "StatusCode (config m) \<le> 999"
    from fresh have fresh': "\<not> wroteHeader w'" by (simp add: w'_def)
    have "body w' = body w" by (simp add: w'_def)
    with defaultHandler_fresh [OF fresh' lo hi, of E r] n
    show "handler w' r =
          Inr (w'\<lparr>wroteHeader := True, status := StatusCode (config m),
                  sentHeader := header w', body := body w @ Message (config m)\<rparr>)"
      by (simp add: handler_def)
  qed
  have bad: "Handler c = None \<and> \<not> wroteHeader w
          \<and> (StatusCode (config m) < 100 \<or> 999 < StatusCode (config m)) \<longrightarrow>
        handler w' r =
          Inl (PanicString (''invalid WriteHeader code ''
                 @ strconv_FormatInt (StatusCode (config m))))"
  proof (intro impI, elim conjE)
    assume n: "Handler c = None" and fresh: "\<not> wroteHeader w"
      and out: "StatusCode (config m) < 100 \<or> 999 < StatusCode (config m)"
    from fresh have fresh': "\<not> wroteHeader w'" by (simp add: w'_def)
    from defaultHandler_panics [OF fresh' out, of E r] n
    show "handler w' r =
          Inl (PanicString (''invalid WriteHeader code ''
                 @ strconv_FormatInt (StatusCode (config m))))"
      by (simp add: handler_def)
  qed
  show ?thesis
  proof (rule exI [of _ handler], rule exI [of _ w'], intro conjI)
    show "Handler (config m) = Some handler" by (rule h)
    show "w' = Set_header w ''Retry-After''
               (strconv_FormatInt (Time_Unix (Time_Add (time_Now E) (RetryAfter result))))"
      by (rule w'_def)
    show "Header_Get (header w') ''Retry-After'' =
          strconv_FormatInt (Time_Unix (Time_Add (time_Now E) (RetryAfter result)))"
      by (rule get)
    show "ServeHTTP E m inner w r =
          \<lparr>resp = handler w' r,
           calls = [CallAllow (key r) (limit m) (Inr result), CallHandler r]\<rparr>"
      by (rule run)
    show "Handler c = None \<longrightarrow> handler = defaultHandler E (config m)" by (rule dflt)
    show "Handler c = None \<and> \<not> wroteHeader w
          \<and> 100 \<le> StatusCode (config m) \<and> StatusCode (config m) \<le> 999 \<longrightarrow>
        handler w' r =
          Inr (w'\<lparr>wroteHeader := True, status := StatusCode (config m),
                  sentHeader := header w', body := body w @ Message (config m)\<rparr>)"
      by (rule ok)
    show "Handler c = None \<and> \<not> wroteHeader w
          \<and> (StatusCode (config m) < 100 \<or> 999 < StatusCode (config m)) \<longrightarrow>
        handler w' r =
          Inl (PanicString (''invalid WriteHeader code ''
                 @ strconv_FormatInt (StatusCode (config m))))"
      by (rule bad)
    show "StatusCode (config m) = (if StatusCode c = 0 then 429 else StatusCode c)"
      by (rule NewWithConfig_config(5) [OF assms(1)])
    show "Message (config m) =
          (if Message c = [] then ''Too many requests, please try again later.'' else Message c)"
      by (rule NewWithConfig_config(6) [OF assms(1)])
  qed
qed

text \<open>
  C1, on the example: the configuration of \<^verbatim>\<open>examples/main.go\<close>, a request from
  \<^verbatim>\<open>192.0.2.1:54321\<close>, refused for two and a half seconds.
\<close>

theorem reject_witness:
  "serve (example_env 0 rejected_answer) (example_config (example_env 0 rejected_answer))
     (myHandler (example_env 0 rejected_answer)) NewRecorder example_request =
   Inr \<lparr>resp = Inr \<lparr>header = Header_Set Map.empty ''Retry-After'' ''1585918924'',
                    wroteHeader = True, status = 429,
                    sentHeader = Header_Set Map.empty ''Retry-After'' ''1585918924'',
                    body = ''Too many requests, please try again later.''\<rparr>,
        calls = [CallAllow ''192.0.2.1'' (example_limit 1) rejected_answer,
                 CallHandler example_request]\<rparr>"
proof -
  let ?E = "example_env 0 rejected_answer"
  let ?res = "\<lparr>Allowed = False, Remaining = 0, RetryAfter = 2500000000, ResetAfter = 10000000000\<rparr>"
  obtain m where m: "NewWithConfig ?E (example_config ?E) = Inr m"
    and sk: "Skipper (config m) = Some DefaultSkipper"
    and key: "Key (config m) = Some (DefaultConfig_Key ?E)"
    and lim: "limit m = example_limit (GCRAAlgorithm ?E)"
    by (rule example_middleware [of "example_config ?E" ?E]) simp_all
  have ans: "limiter_Allow ?E (limiter m) (DefaultConfig_Key ?E example_request) (limit m) = Inr ?res"
    by (simp add: rejected_answer_def)
  have na: "\<not> Allowed ?res" by simp
  have fresh: "\<not> wroteHeader NewRecorder" by (simp add: NewRecorder_def)
  from reject_sets_Retry_After_and_calls_Handler
         [OF m sk DefaultSkipper_never key ans na,
          where inner = "myHandler ?E" and w = NewRecorder]
  obtain handler w' where
    w': "w' = Set_header NewRecorder ''Retry-After''
               (strconv_FormatInt (Time_Unix (Time_Add (time_Now ?E) (RetryAfter ?res))))"
    and run: "ServeHTTP ?E m (myHandler ?E) NewRecorder example_request =
            \<lparr>resp = handler w' example_request,
             calls = [CallAllow (DefaultConfig_Key ?E example_request) (limit m) (Inr ?res),
                      CallHandler example_request]\<rparr>"
    and ok: "Handler (example_config ?E) = None \<and> \<not> wroteHeader NewRecorder
          \<and> 100 \<le> StatusCode (config m) \<and> StatusCode (config m) \<le> 999 \<longrightarrow>
        handler w' example_request =
          Inr (w'\<lparr>wroteHeader := True, status := StatusCode (config m),
                  sentHeader := header w', body := body NewRecorder @ Message (config m)\<rparr>)"
    and code: "StatusCode (config m) = (if StatusCode (example_config ?E) = 0 then 429
                                        else StatusCode (example_config ?E))"
    and msg: "Message (config m) =
          (if Message (example_config ?E) = [] then ''Too many requests, please try again later.''
           else Message (example_config ?E))"
    by blast
  from code have code': "StatusCode (config m) = 429" by simp
  from msg have msg': "Message (config m) = ''Too many requests, please try again later.''" by simp
  from ok fresh code' have fin: "handler w' example_request =
          Inr (w'\<lparr>wroteHeader := True, status := 429,
                  sentHeader := header w', body := body NewRecorder @ Message (config m)\<rparr>)"
    by simp
  note t = example_times(1) [unfolded unixAfter_def]
  show ?thesis
    unfolding serve_eq [OF m] run fin
    by (simp add: w' t msg' lim DefaultConfig_Key_example_request rejected_answer_def
          NewRecorder_def Set_header_def)
qed

text \<open>
  C1 does not hold for every configured status code: with the code 99 and no reject
  handler, the default handler panics in \<^verbatim>\<open>WriteHeader\<close>; the response has neither the
  configured status nor the message.
\<close>

theorem reject_status_99_counterexample:
  "serve (example_env 0 rejected_answer)
     ((example_config (example_env 0 rejected_answer))\<lparr>StatusCode := 99\<rparr>)
     (myHandler (example_env 0 rejected_answer)) NewRecorder example_request =
   Inr \<lparr>resp = Inl (PanicString ''invalid WriteHeader code 99''),
        calls = [CallAllow ''192.0.2.1'' (example_limit 1) rejected_answer,
                 CallHandler example_request]\<rparr>"
proof -
  let ?E = "example_env 0 rejected_answer"
  let ?c = "(example_config ?E)\<lparr>StatusCode := 99\<rparr>"
  obtain m where m: "NewWithConfig ?E ?c = Inr m"
    and sk: "Skipper (config m) = Some DefaultSkipper"
    and key: "Key (config m) = Some (DefaultConfig_Key ?E)"
    and lim: "limit m = example_limit (GCRAAlgorithm ?E)"
    by (rule example_middleware [of ?c ?E]) simp_all
  have h: "Handler (config m) = Some (defaultHandler ?E (config m))"
    using NewWithConfig_Handler [OF m] by simp
  obtain eh where eh: "ErrHandler (config m) = Some eh"
    using NewWithConfig_config(12) [OF m] by simp
  have code: "StatusCode (config m) = 99"
    using NewWithConfig_config(5) [OF m] by simp
  have n: "strconv_FormatInt 99 = ''99''" by (simp add: eval_FormatInt)
  have p: "defaultHandler E' (config m) w example_request =
             Inl (PanicString ''invalid WriteHeader code 99'')" if "\<not> wroteHeader w" for w E'
    using defaultHandler_panics [OF that, of "config m" E' example_request]
    by (simp add: code n)
  show ?thesis
    unfolding serve_eq [OF m] ServeHTTP_resolved [OF sk key h eh]
    by (simp add: p rejected_answer_def lim DefaultConfig_Key_example_request NewRecorder_def)
qed

text \<open>
  C2. When the limiter answers with an allowed decision, the middleware changes nothing
  of the response writer but its header map, in which \<^verbatim>\<open>X-RateLimit-Limit\<close> is the
  configured maximum (10 when left zero), \<^verbatim>\<open>X-RateLimit-Remaining\<close> the decision's
  remaining count and \<^verbatim>\<open>X-RateLimit-Reset\<close> the decimal Unix time of now plus the
  decision's reset-after duration; then it forwards the request to the inner handler,
  which is the only call after the limiter's.
\<close>

theorem allow_sets_RateLimit_headers_and_forwards:
  assumes "NewWithConfig E c = Inr m"
    and "Skipper (config m) = Some skipper" and "\<not> skipper r"
    and "Key (config m) = Some key"
    and "limiter_Allow E (limiter m) (key r) (limit m) = Inr result"
    and "Allowed result"
  shows "\<exists>h'.
      h' = Header_Set (Header_Set (Header_Set (header w)
             ''X-RateLimit-Limit'' (strconv_Itoa (Max_n (config m))))
             ''X-RateLimit-Remaining'' (strconv_FormatInt (Remaining result)))
             ''X-RateLimit-Reset''
             (strconv_FormatInt (Time_Unix (Time_Add (time_Now E) (ResetAfter result))))
    \<and> ServeHTTP E m inner w r =
        \<lparr>resp = inner (w\<lparr>header := h'\<rparr>) r,
         calls = [CallAllow (key r) (limit m) (Inr result), CallNext r]\<rparr>
    \<and> Header_Get h' ''X-RateLimit-Limit'' = strconv_Itoa (Max_n (config m))
    \<and> Header_Get h' ''X-RateLimit-Remaining'' = strconv_FormatInt (Remaining result)
    \<and> Header_Get h' ''X-RateLimit-Reset'' =
          strconv_FormatInt (Time_Unix (Time_Add (time_Now E) (ResetAfter result)))
    \<and> Max_n (config m) = (if Max_n c = 0 then 10 else Max_n c)"
proof -
  define h' where "h' = Header_Set (Header_Set (Header_Set (header w)
       ''X-RateLimit-Limit'' (strconv_Itoa (Max_n (config m))))
       ''X-RateLimit-Remaining'' (strconv_FormatInt (Remaining result)))
       ''X-RateLimit-Reset''
       (strconv_FormatInt (Time_Unix (Time_Add (time_Now E) (ResetAfter result))))"
  obtain h where h: "Handler (config m) = Some h"
    using NewWithConfig_Handler [OF assms(1)] by simp
  obtain eh where eh: "ErrHandler (config m) = Some eh"
    using NewWithConfig_config(12) [OF assms(1)] by simp
  have run: "ServeHTTP E m inner w r =
        \<lparr>resp = inner (w\<lparr>header := h'\<rparr>) r,
         calls = [CallAllow (key r) (limit m) (Inr result), CallNext r]\<rparr>"
    using assms(3,5,6)
    by (simp add: ServeHTTP_resolved [OF assms(2) assms(4) h eh] h'_def Set_header_def
          unixAfter_def)
  have g1: "Header_Get h' ''X-RateLimit-Limit'' = strconv_Itoa (Max_n (config m))"
    by (simp add: h'_def Header_Get_Set canon_keys)
  have g2: "Header_Get h' ''X-RateLimit-Remaining'' = strconv_FormatInt (Remaining result)"
    by (simp add: h'_def Header_Get_Set canon_keys)
  have g3: "Header_Get h' ''X-RateLimit-Reset'' =
          strconv_FormatInt (Time_Unix (Time_Add (time_Now E) (ResetAfter result)))"
    by (simp add: h'_def Header_Get_Set canon_keys)
  show ?thesis
    using h'_def run g1 g2 g3 NewWithConfig_config(3) [OF assms(1)]
    by (intro exI [of _ h']) (simp only: simp_thms)
qed

text \<open>
  C2, on the example: the first request of the README. The recorder ends with the three
  headers of the README's first response, and the inner handler's body under status 200.
\<close>

theorem allow_witness:
  "serve (example_env 0 allowed_answer) (example_config (example_env 0 allowed_answer))
     (myHandler (example_env 0 allowed_answer)) NewRecorder example_request =
   Inr \<lparr>resp = Inr \<lparr>header = [''X-Ratelimit-Limit'' \<mapsto> [''3''],
                              ''X-Ratelimit-Remaining'' \<mapsto> [''2''],
                              ''X-Ratelimit-Reset'' \<mapsto> [''1585918925''],
                              ''Content-Type'' \<mapsto> [''text/plain; charset=utf-8'']],
                    wroteHeader = True, status = 200,
                    sentHeader = [''X-Ratelimit-Limit'' \<mapsto> [''3''],
                              ''X-Ratelimit-Remaining'' \<mapsto> [''2''],
                              ''X-Ratelimit-Reset'' \<mapsto> [''1585918925''],
                              ''Content-Type'' \<mapsto> [''text/plain; charset=utf-8'']],
                    body = ''hello world''\<rparr>,
        calls = [CallAllow ''192.0.2.1'' (example_limit 1) allowed_answer,
                 CallNext example_request]\<rparr>"
proof -
  let ?E = "example_env 0 allowed_answer"
  let ?res = "\<lparr>Allowed = True, Remaining = 2, RetryAfter = - 1, ResetAfter = 3333333333\<rparr>"
  obtain m where m: "NewWithConfig ?E (example_config ?E) = Inr m"
    and sk: "Skipper (config m) = Some DefaultSkipper"
    and key: "Key (config m) = Some (DefaultConfig_Key ?E)"
    and lim: "limit m = example_limit (GCRAAlgorithm ?E)"
    by (rule example_middleware [of "example_config ?E" ?E]) simp_all
  have ans: "limiter_Allow ?E (limiter m) (DefaultConfig_Key ?E example_request) (limit m) = Inr ?res"
    by (simp add: allowed_answer_def)
  have al: "Allowed ?res" by simp
  from allow_sets_RateLimit_headers_and_forwards
         [OF m sk DefaultSkipper_never key ans al,
          where inner = "myHandler ?E" and w = NewRecorder]
  obtain h' where
    h': "h' = Header_Set (Header_Set (Header_Set (header NewRecorder)
             ''X-RateLimit-Limit'' (strconv_Itoa (Max_n (config m))))
             ''X-RateLimit-Remaining'' (strconv_FormatInt (Remaining ?res)))
             ''X-RateLimit-Reset''
             (strconv_FormatInt (Time_Unix (Time_Add (time_Now ?E) (ResetAfter ?res))))"
    and run: "ServeHTTP ?E m (myHandler ?E) NewRecorder example_request =
            \<lparr>resp = myHandler ?E (NewRecorder\<lparr>header := h'\<rparr>) example_request,
             calls = [CallAllow (DefaultConfig_Key ?E example_request) (limit m) (Inr ?res),
                      CallNext example_request]\<rparr>"
    and mx: "Max_n (config m) = (if Max_n (example_config ?E) = 0 then 10
                                 else Max_n (example_config ?E))"
    by blast
  have n: "strconv_Itoa 3 = ''3''" "strconv_FormatInt 2 = ''2''"
    by (simp_all add: eval_FormatInt)
  note t = example_times(2) [unfolded unixAfter_def]
  from mx have h'': "h' = Header_Set (Header_Set (Header_Set Map.empty
             ''X-RateLimit-Limit'' ''3'') ''X-RateLimit-Remaining'' ''2'')
             ''X-RateLimit-Reset'' ''1585918925''"
    by (simp add: h' n t NewRecorder_def)
  show ?thesis
    unfolding serve_eq [OF m] run myHandler_NewRecorder
    by (simp add: h'' lim DefaultConfig_Key_example_request allowed_answer_def
          Header_Set_def Header_Get_def canon_keys fun_upd_twist)
qed

text \<open>
  C3. When the limiter returns an error: with skip-on-error set, the inner handler is
  called with the writer as it came, no header added; without it, the error handler is
  called with the error and the inner handler is not. When the configuration gave no
  error handler, the handler is the default one, which on a recorder that has not written
  its header leaves status 500, the header map as it was as the headers sent, and the
  error's text as the body.
\<close>

theorem limiter_error_is_skipped_or_handled:
  assumes "NewWithConfig E c = Inr m"
    and "Skipper (config m) = Some skipper" and "\<not> skipper r"
    and "Key (config m) = Some key"
    and "limiter_Allow E (limiter m) (key r) (limit m) = Inl err"
  shows "(SkipOnError c \<longrightarrow>
            ServeHTTP E m inner w r =
              \<lparr>resp = inner w r,
               calls = [CallAllow (key r) (limit m) (Inl err), CallNext r]\<rparr>)
       \<and> (\<not> SkipOnError c \<longrightarrow>
            (\<exists>errHandler.
                ErrHandler (config m) = Some errHandler
              \<and> ServeHTTP E m inner w r =
                  \<lparr>resp = errHandler err w r,
                   calls = [CallAllow (key r) (limit m) (Inl err), CallErrHandler err r]\<rparr>
              \<and> (ErrHandler c = None \<longrightarrow>
                    errHandler = defaultErrHandler E
                  \<and> (\<not> wroteHeader w \<longrightarrow>
                        errHandler err w r =
                          Inr (w\<lparr>wroteHeader := True, status := 500,
                                  sentHeader := header w, body := body w @ Error err\<rparr>)))))"
proof -
  define eh where "eh = (case ErrHandler c of None \<Rightarrow> defaultErrHandler E | Some h \<Rightarrow> h)"
  have eh: "ErrHandler (config m) = Some eh"
    using NewWithConfig_config(12) [OF assms(1)] by (simp add: eh_def)
  obtain h where h: "Handler (config m) = Some h"
    using NewWithConfig_Handler [OF assms(1)] by simp
  have soe: "SkipOnError (config m) = SkipOnError c"
    by (rule NewWithConfig_config(9) [OF assms(1)])
  note run = ServeHTTP_resolved [OF assms(2) assms(4) h eh, of E inner w r]
  have skip: "SkipOnError c \<longrightarrow>
            ServeHTTP E m inner w r =
              \<lparr>resp = inner w r,
               calls = [CallAllow (key r) (limit m) (Inl err), CallNext r]\<rparr>"
    using assms(3,5) by (simp add: run soe)
  have handled: "\<not> SkipOnError c \<longrightarrow> ServeHTTP E m inner w r =
                  \<lparr>resp = eh err w r,
                   calls = [CallAllow (key r) (limit m) (Inl err), CallErrHandler err r]\<rparr>"
    using assms(3,5) by (simp add: run soe)
  have dflt: "ErrHandler c = None \<longrightarrow>
                    eh = defaultErrHandler E
                  \<and> (\<not> wroteHeader w \<longrightarrow>
                        eh err w r =
                          Inr (w\<lparr>wroteHeader := True, status := 500,
                                  sentHeader := header w, body := body w @ Error err\<rparr>))"
    by (auto simp: eh_def defaultErrHandler_fresh)
  show ?thesis
  proof (intro conjI impI)
    assume "SkipOnError c"
    with skip show "ServeHTTP E m inner w r =
              \<lparr>resp = inner w r,
               calls = [CallAllow (key r) (limit m) (Inl err), CallNext r]\<rparr>"
      by simp
  next
    assume "\<not> SkipOnError c"
    with handled eh dflt show "\<exists>errHandler.
                ErrHandler (config m) = Some errHandler
              \<and> ServeHTTP E m inner w r =
                  \<lparr>resp = errHandler err w r,
                   calls = [CallAllow (key r) (limit m) (Inl err), CallErrHandler err r]\<rparr>
              \<and> (ErrHandler c = None \<longrightarrow>
                    errHandler = defaultErrHandler E
                  \<and> (\<not> wroteHeader w \<longrightarrow>
                        errHandler err w r =
                          Inr (w\<lparr>wroteHeader := True, status := 500,
                                  sentHeader := header w, body := body w @ Error err\<rparr>)))"
      by (intro exI [of _ eh]) (simp only: simp_thms)
  qed
qed

text \<open>
  C3, on the example, with the store down: without skip-on-error the recorder ends with
  status 500 and the error's text; with it, the inner handler answers as if there were no
  limiter.
\<close>

theorem limiter_error_witness:
  "serve (example_env 0 failed_answer) (example_config (example_env 0 failed_answer))
     (myHandler (example_env 0 failed_answer)) NewRecorder example_request =
   Inr \<lparr>resp = Inr \<lparr>header = Map.empty, wroteHeader = True, status = 500,
                    sentHeader = Map.empty,
                    body = ''dial tcp 127.0.0.1:6379: connect: connection refused''\<rparr>,
        calls = [CallAllow ''192.0.2.1'' (example_limit 1) failed_answer,
                 CallErrHandler
                   (errors_New ''dial tcp 127.0.0.1:6379: connect: connection refused'')
                   example_request]\<rparr>
 \<and> serve (example_env 0 failed_answer)
     ((example_config (example_env 0 failed_answer))\<lparr>SkipOnError := True\<rparr>)
     (myHandler (example_env 0 failed_answer)) NewRecorder example_request =
   Inr \<lparr>resp = myHandler (example_env 0 failed_answer) NewRecorder example_request,
        calls = [CallAllow ''192.0.2.1'' (example_limit 1) failed_answer,
                 CallNext example_request]\<rparr>
 \<and> myHandler (example_env 0 failed_answer) NewRecorder example_request =
   Inr \<lparr>header = [''Content-Type'' \<mapsto> [''text/plain; charset=utf-8'']],
        wroteHeader = True, status = 200,
        sentHeader = [''Content-Type'' \<mapsto> [''text/plain; charset=utf-8'']],
        body = ''hello world''\<rparr>"
proof (intro conjI)
  let ?E = "example_env 0 failed_answer"
  let ?err = "errors_New ''dial tcp 127.0.0.1:6379: connect: connection refused''"
  obtain m where m: "NewWithConfig ?E (example_config ?E) = Inr m"
    and sk: "Skipper (config m) = Some DefaultSkipper"
    and key: "Key (config m) = Some (DefaultConfig_Key ?E)"
    and lim: "limit m = example_limit (GCRAAlgorithm ?E)"
    by (rule example_middleware [of "example_config ?E" ?E]) simp_all
  have ans: "limiter_Allow ?E (limiter m) (DefaultConfig_Key ?E example_request) (limit m) = Inl ?err"
    by (simp add: failed_answer_def)
  have fresh: "\<not> wroteHeader NewRecorder" by (simp add: NewRecorder_def)
  from limiter_error_is_skipped_or_handled
         [OF m sk DefaultSkipper_never key ans, where inner = "myHandler ?E" and w = NewRecorder]
  obtain eh where
    run: "ServeHTTP ?E m (myHandler ?E) NewRecorder example_request =
            \<lparr>resp = eh ?err NewRecorder example_request,
             calls = [CallAllow (DefaultConfig_Key ?E example_request) (limit m) (Inl ?err),
                      CallErrHandler ?err example_request]\<rparr>"
    and res: "eh ?err NewRecorder example_request =
                Inr (NewRecorder\<lparr>wroteHeader := True, status := 500,
                        sentHeader := header NewRecorder,
                        body := body NewRecorder @ Error ?err\<rparr>)"
    using fresh by auto
  show "serve ?E (example_config ?E) (myHandler ?E) NewRecorder example_request =
   Inr \<lparr>resp = Inr \<lparr>header = Map.empty, wroteHeader = True, status = 500,
                    sentHeader = Map.empty,
                    body = ''dial tcp 127.0.0.1:6379: connect: connection refused''\<rparr>,
        calls = [CallAllow ''192.0.2.1'' (example_limit 1) failed_answer,
                 CallErrHandler ?err example_request]\<rparr>"
    unfolding serve_eq [OF m] run res
    by (simp add: lim DefaultConfig_Key_example_request failed_answer_def NewRecorder_def)
next
  let ?E = "example_env 0 failed_answer"
  let ?c = "(example_config ?E)\<lparr>SkipOnError := True\<rparr>"
  let ?err = "errors_New ''dial tcp 127.0.0.1:6379: connect: connection refused''"
  obtain m where m: "NewWithConfig ?E ?c = Inr m"
    and sk: "Skipper (config m) = Some DefaultSkipper"
    and key: "Key (config m) = Some (DefaultConfig_Key ?E)"
    and lim: "limit m = example_limit (GCRAAlgorithm ?E)"
    by (rule example_middleware [of ?c ?E]) simp_all
  have ans: "limiter_Allow ?E (limiter m) (DefaultConfig_Key ?E example_request) (limit m) = Inl ?err"
    by (simp add: failed_answer_def)
  have c: "SkipOnError ?c" by simp
  from limiter_error_is_skipped_or_handled
         [OF m sk DefaultSkipper_never key ans, where inner = "myHandler ?E" and w = NewRecorder] c
  have run: "ServeHTTP ?E m (myHandler ?E) NewRecorder example_request =
            \<lparr>resp = myHandler ?E NewRecorder example_request,
             calls = [CallAllow (DefaultConfig_Key ?E example_request) (limit m) (Inl ?err),
                      CallNext example_request]\<rparr>"
    by blast
  show "serve ?E ?c (myHandler ?E) NewRecorder example_request =
   Inr \<lparr>resp = myHandler ?E NewRecorder example_request,
        calls = [CallAllow ''192.0.2.1'' (example_limit 1) failed_answer,
                 CallNext example_request]\<rparr>"
    unfolding serve_eq [OF m] run
    by (simp add: lim DefaultConfig_Key_example_request failed_answer_def)
next
  have "myHandler (example_env 0 failed_answer) (NewRecorder\<lparr>header := Map.empty\<rparr>) example_request =
   Inr \<lparr>header = [''Content-Type'' \<mapsto> [''text/plain; charset=utf-8'']],
        wroteHeader = True, status = 200,
        sentHeader = [''Content-Type'' \<mapsto> [''text/plain; charset=utf-8'']],
        body = ''hello world''\<rparr>"
    unfolding myHandler_NewRecorder
    by (simp add: Header_Set_def Header_Get_def canon_keys)
  then show "myHandler (example_env 0 failed_answer) NewRecorder example_request =
   Inr \<lparr>header = [''Content-Type'' \<mapsto> [''text/plain; charset=utf-8'']],
        wroteHeader = True, status = 200,
        sentHeader = [''Content-Type'' \<mapsto> [''text/plain; charset=utf-8'']],
        body = ''hello world''\<rparr>"
    by (simp add: NewRecorder_def)
qed

text \<open>
  C4. When the skip predicate holds of the request, the inner handler is called with the
  request and the writer as it came, and that is the only call: the limiter is not asked.
  This holds whatever the limiter would answer and whatever the clock shows (the
  environment \<open>E'\<close> of the request is arbitrary).
\<close>

theorem skipped_request_is_forwarded_without_limiter:
  assumes "NewWithConfig E c = Inr m"
    and "Skipper (config m) = Some skipper" and "skipper r"
  shows "ServeHTTP E' m inner w r = \<lparr>resp = inner w r, calls = [CallNext r]\<rparr>
       \<and> filter is_Allow (calls (ServeHTTP E' m inner w r)) = []"
proof -
  obtain key where key: "Key (config m) = Some key"
    using NewWithConfig_config(11) [OF assms(1)] by simp
  obtain h where h: "Handler (config m) = Some h"
    using NewWithConfig_Handler [OF assms(1)] by simp
  obtain eh where eh: "ErrHandler (config m) = Some eh"
    using NewWithConfig_config(12) [OF assms(1)] by simp
  show ?thesis
    using assms(3) by (simp add: ServeHTTP_resolved [OF assms(2) key h eh])
qed

text \<open>
  C4, on the example with a skip predicate for \<^verbatim>\<open>GET\<close> requests: the inner handler
  answers alone, whether the limiter would refuse or fail.
\<close>

theorem skipped_witness:
  "serve (example_env 0 rejected_answer)
     ((example_config (example_env 0 rejected_answer))
        \<lparr>Skipper := Some (\<lambda>r. Method r = ''GET'')\<rparr>)
     (myHandler (example_env 0 rejected_answer)) NewRecorder example_request =
   Inr \<lparr>resp = myHandler (example_env 0 rejected_answer) NewRecorder example_request,
        calls = [CallNext example_request]\<rparr>
 \<and> serve (example_env 0 failed_answer)
     ((example_config (example_env 0 failed_answer))
        \<lparr>Skipper := Some (\<lambda>r. Method r = ''GET'')\<rparr>)
     (myHandler (example_env 0 failed_answer)) NewRecorder example_request =
   Inr \<lparr>resp = myHandler (example_env 0 failed_answer) NewRecorder example_request,
        calls = [CallNext example_request]\<rparr>"
proof -
  have one: "serve (example_env 0 a)
     ((example_config (example_env 0 a))\<lparr>Skipper := Some (\<lambda>r. Method r = ''GET'')\<rparr>)
     (myHandler (example_env 0 a)) NewRecorder example_request =
   Inr \<lparr>resp = myHandler (example_env 0 a) NewRecorder example_request,
        calls = [CallNext example_request]\<rparr>" for a
  proof -
    let ?E = "example_env 0 a"
    let ?c = "(example_config ?E)\<lparr>Skipper := Some (\<lambda>r. Method r = ''GET'')\<rparr>"
    have "Rediser ?c \<noteq> None" by simp
    then obtain m where m: "NewWithConfig ?E ?c = Inr m"
      using NewWithConfig_Inr [of ?E ?c] by blast
    have sk: "Skipper (config m) = Some (\<lambda>r. Method r = ''GET'')"
      using NewWithConfig_config(1) [OF m] by simp
    have s: "(\<lambda>r. Method r = ''GET'') example_request" by (simp add: example_request_def)
    from skipped_request_is_forwarded_without_limiter [OF m sk s]
    show ?thesis
      unfolding serve_eq [OF m] by simp
  qed
  show ?thesis
    using one [of rejected_answer] one [of failed_answer] by simp
qed

text \<open>
  C5. The key that \<^verbatim>\<open>limiter.Allow\<close> receives is the one the key function returns,
  with nothing put before it. \<^verbatim>\<open>Config.Prefix\<close> is given its default by
  \<^verbatim>\<open>NewWithConfig\<close> and then never read: two configurations that differ in the
  prefix only serve every request alike.
\<close>

lemma Prefix_is_never_read:
  assumes "NewWithConfig E c = Inr m" and "NewWithConfig E (c\<lparr>Prefix := p\<rparr>) = Inr m'"
  shows "ServeHTTP E' m' inner w r = ServeHTTP E' m inner w r"
proof -
  have "Skipper (config m') = Skipper (config m)"
    "Key (config m') = Key (config m)"
    "SkipOnError (config m') = SkipOnError (config m)"
    "Max_n (config m') = Max_n (config m)"
    "ErrHandler (config m') = ErrHandler (config m)"
    using NewWithConfig_config [OF assms(1)] NewWithConfig_config [OF assms(2)] by simp_all
  moreover have "Handler (config m') = Handler (config m)"
    using NewWithConfig_Handler [OF assms(1)] NewWithConfig_Handler [OF assms(2)]
      NewWithConfig_config(5,6) [OF assms(1)] NewWithConfig_config(5,6) [OF assms(2)]
    by (auto intro!: defaultHandler_cong split: option.splits)
  moreover have "limit m' = limit m" "limiter m' = limiter m"
    using NewWithConfig_limit [OF assms(1)] NewWithConfig_limit [OF assms(2)]
      NewWithConfig_config [OF assms(1)] NewWithConfig_config [OF assms(2)] by auto
  ultimately show ?thesis
    unfolding ServeHTTP_def by (simp only:)
qed

text \<open>
  C5, at an input: with the prefix \<^verbatim>\<open>myapp\<close> configured, a request from
  \<^verbatim>\<open>192.0.2.1:54321\<close> asks the limiter about the key \<^verbatim>\<open>192.0.2.1\<close>, not about a key
  that starts with or holds \<^verbatim>\<open>myapp\<close>; the resolved configuration does hold the prefix.
\<close>

theorem Allow_is_called_with_the_key_alone:
  "map_option Prefix (resolved (example_env 0 allowed_answer)
     ((example_config (example_env 0 allowed_answer))\<lparr>Prefix := ''myapp''\<rparr>)) = Some ''myapp''
 \<and> map_sum id calls
     (serve (example_env 0 allowed_answer)
        ((example_config (example_env 0 allowed_answer))\<lparr>Prefix := ''myapp''\<rparr>)
        (myHandler (example_env 0 allowed_answer)) NewRecorder example_request) =
   Inr [CallAllow ''192.0.2.1'' (example_limit 1) allowed_answer, CallNext example_request]"
proof -
  let ?E = "example_env 0 allowed_answer"
  let ?c = "(example_config ?E)\<lparr>Prefix := ''myapp''\<rparr>"
  obtain m where m: "NewWithConfig ?E ?c = Inr m"
    and sk: "Skipper (config m) = Some DefaultSkipper"
    and key: "Key (config m) = Some (DefaultConfig_Key ?E)"
    and lim: "limit m = example_limit (GCRAAlgorithm ?E)"
    by (rule example_middleware [of ?c ?E]) simp_all
  have pre: "Prefix (config m) = ''myapp''"
    using NewWithConfig_config(8) [OF m] by simp
  obtain h where h: "Handler (config m) = Some h"
    using NewWithConfig_Handler [OF m] by simp
  obtain eh where eh: "ErrHandler (config m) = Some eh"
    using NewWithConfig_config(12) [OF m] by simp
  show ?thesis
    unfolding serve_eq [OF m] ServeHTTP_resolved [OF sk key h eh]
    using m pre
    by (simp add: resolved_def lim DefaultConfig_Key_example_request allowed_answer_def)
qed

text \<open>
  C6. \<^verbatim>\<open>GetIP\<close> takes the first source that is there: a non-empty
  \<^verbatim>\<open>X-Forwarded-For\<close>, of which it parses what stands before the first comma, trimmed;
  else an \<^verbatim>\<open>X-Real-IP\<close> that is non-empty once trimmed; else the trimmed remote address,
  without its port when \<^verbatim>\<open>SplitHostPort\<close> can split it and whole when it cannot. The
  default key is the text of that address. So a request with \<^verbatim>\<open>X-Forwarded-For\<close>
  \<^verbatim>\<open>203.0.113.5, 10.0.0.1\<close> has the key \<^verbatim>\<open>203.0.113.5\<close> whatever else it carries; one
  with no header but \<^verbatim>\<open>X-Real-IP\<close> \<^verbatim>\<open>198.51.100.7\<close> has the key \<^verbatim>\<open>198.51.100.7\<close>; one
  with no header and the remote address \<^verbatim>\<open>192.0.2.1:54321\<close> has the key \<^verbatim>\<open>192.0.2.1\<close>.
\<close>

theorem GetIP_first_match_wins:
  "GetIP E r =
     (let xff = Header_Get (Header r) ''X-Forwarded-For'';
          xri = strings_TrimSpace (Header_Get (Header r) ''X-Real-IP'');
          ra = strings_TrimSpace (RemoteAddr r)
      in if xff \<noteq> [] then
           net_ParseIP (parseIPv6 E) (strings_TrimSpace (takeWhile (\<lambda>c. c \<noteq> CHR '','') xff))
         else if xri \<noteq> [] then net_ParseIP (parseIPv6 E) xri
         else net_ParseIP (parseIPv6 E)
                (case net_SplitHostPort ra of Inl err \<Rightarrow> ra | Inr (host, port) \<Rightarrow> host))
 \<and> Key (DefaultConfig E) = Some (DefaultConfig_Key E)
 \<and> DefaultConfig_Key E r = IP_String (ipv6_String E) (GetIP E r)
 \<and> DefaultConfig_Key E
       (r\<lparr>Header := Header_Set (Header r) ''X-Forwarded-For'' ''203.0.113.5, 10.0.0.1''\<rparr>)
     = ''203.0.113.5''
 \<and> DefaultConfig_Key E (r\<lparr>Header := Header_Set Map.empty ''X-Real-IP'' ''198.51.100.7''\<rparr>)
     = ''198.51.100.7''
 \<and> DefaultConfig_Key E (r\<lparr>Header := Map.empty, RemoteAddr := ''192.0.2.1:54321''\<rparr>)
     = ''192.0.2.1''"
proof (intro conjI)
  show "GetIP E r =
     (let xff = Header_Get (Header r) ''X-Forwarded-For'';
          xri = strings_TrimSpace (Header_Get (Header r) ''X-Real-IP'');
          ra = strings_TrimSpace (RemoteAddr r)
      in if xff \<noteq> [] then
           net_ParseIP (parseIPv6 E) (strings_TrimSpace (takeWhile (\<lambda>c. c \<noteq> CHR '','') xff))
         else if xri \<noteq> [] then net_ParseIP (parseIPv6 E) xri
         else net_ParseIP (parseIPv6 E)
                (case net_SplitHostPort ra of Inl err \<Rightarrow> ra | Inr (host, port) \<Rightarrow> host))"
    by (rule GetIP_order)
  show "Key (DefaultConfig E) = Some (DefaultConfig_Key E)"
    by (simp add: DefaultConfig_def)
  show "DefaultConfig_Key E r = IP_String (ipv6_String E) (GetIP E r)"
    by (simp add: DefaultConfig_Key_def)
  show "DefaultConfig_Key E
       (r\<lparr>Header := Header_Set (Header r) ''X-Forwarded-For'' ''203.0.113.5, 10.0.0.1''\<rparr>)
     = ''203.0.113.5''"
  proof -
    have a: "takeWhile (\<lambda>c. c \<noteq> CHR '','') ''203.0.113.5, 10.0.0.1'' = ''203.0.113.5''"
      by simp
    have b: "strings_TrimSpace ''203.0.113.5'' = ''203.0.113.5''"
      by (simp add: eval_TrimSpace)
    have g: "GetIP E (r\<lparr>Header := Header_Set (Header r) ''X-Forwarded-For''
                 ''203.0.113.5, 10.0.0.1''\<rparr>) = net_ParseIP (parseIPv6 E) ''203.0.113.5''"
      unfolding GetIP_order by (simp add: Header_Get_Set_same a b del: takeWhile.simps)
    show ?thesis
      unfolding DefaultConfig_Key_def g by (simp add: eval_ParseIP eval_IP_String)
  qed
  show "DefaultConfig_Key E (r\<lparr>Header := Header_Set Map.empty ''X-Real-IP'' ''198.51.100.7''\<rparr>)
     = ''198.51.100.7''"
  proof -
    have a: "Header_Get (Header_Set Map.empty ''X-Real-IP'' ''198.51.100.7'') ''X-Forwarded-For'' = []"
      by (simp add: Header_Get_Set canon_keys Header_Get_empty)
    have b: "strings_TrimSpace ''198.51.100.7'' = ''198.51.100.7''"
      by (simp add: eval_TrimSpace)
    have g: "GetIP E (r\<lparr>Header := Header_Set Map.empty ''X-Real-IP'' ''198.51.100.7''\<rparr>)
               = net_ParseIP (parseIPv6 E) ''198.51.100.7''"
      unfolding GetIP_order by (simp add: Header_Get_Set_same a b)
    show ?thesis
      unfolding DefaultConfig_Key_def g by (simp add: eval_ParseIP eval_IP_String)
  qed
  show "DefaultConfig_Key E (r\<lparr>Header := Map.empty, RemoteAddr := ''192.0.2.1:54321''\<rparr>)
     = ''192.0.2.1''"
  proof -
    have a: "strings_TrimSpace [] = []" by (simp add: eval_TrimSpace)
    have b: "strings_TrimSpace ''192.0.2.1:54321'' = ''192.0.2.1:54321''"
      by (simp add: eval_TrimSpace)
    have d: "net_SplitHostPort ''192.0.2.1:54321'' = Inr (''192.0.2.1'', ''54321'')"
      by (simp add: eval_SplitHostPort)
    have g: "GetIP E (r\<lparr>Header := Map.empty, RemoteAddr := ''192.0.2.1:54321''\<rparr>)
               = net_ParseIP (parseIPv6 E) ''192.0.2.1''"
      unfolding GetIP_order by (simp add: Header_Get_empty a b d)
    show ?thesis
      unfolding DefaultConfig_Key_def g by (simp add: eval_ParseIP eval_IP_String)
  qed
qed



text \<open>
  C7. For a configuration with a store handle, \<^verbatim>\<open>NewWithConfig\<close> replaces each of the
  eleven fields it tests by the default when the field is at its zero value, and keeps it
  otherwise: the skip predicate (default: never skip), max (10), burst (10), status code
  (429), message, algorithm (the sliding window constant), prefix (\<^verbatim>\<open>http_limiter\<close>),
  period (one minute), the key function (the text of \<^verbatim>\<open>GetIP\<close>), the reject handler
  and the error handler. The store handle and skip-on-error stay as given. After that the
  four function fields are not nil, max, burst, status code and period are not 0, message
  and prefix are not empty. The algorithm is 0 exactly when it was left 0 and the sliding
  window constant is 0 itself; skip-on-error is false when it was left so. The limit
  given to the limiter is built from the resolved fields.
\<close>

theorem NewWithConfig_replaces_zero_fields:
  assumes "NewWithConfig E c = Inr m"
  shows "Skipper (config m) = Some (case Skipper c of None \<Rightarrow> DefaultSkipper | Some s \<Rightarrow> s)
    \<and> \<not> DefaultSkipper r
    \<and> Max_n (config m) = (if Max_n c = 0 then 10 else Max_n c)
    \<and> Burst (config m) = (if Burst c = 0 then 10 else Burst c)
    \<and> StatusCode (config m) = (if StatusCode c = 0 then 429 else StatusCode c)
    \<and> Message (config m) =
         (if Message c = [] then ''Too many requests, please try again later.'' else Message c)
    \<and> Algorithm (config m) = (if Algorithm c = 0 then SlidingWindowAlgorithm E else Algorithm c)
    \<and> Prefix (config m) = (if Prefix c = [] then ''http_limiter'' else Prefix c)
    \<and> Period (config m) = (if Period c = 0 then 60 * 1000000000 else Period c)
    \<and> Key (config m) = Some (case Key c of None \<Rightarrow> DefaultConfig_Key E | Some k \<Rightarrow> k)
    \<and> Handler (config m) =
         Some (case Handler c of None \<Rightarrow> defaultHandler E (config m) | Some h \<Rightarrow> h)
    \<and> ErrHandler (config m) =
         Some (case ErrHandler c of None \<Rightarrow> defaultErrHandler E | Some h \<Rightarrow> h)
    \<and> Rediser (config m) = Rediser c \<and> Rediser c \<noteq> None
    \<and> SkipOnError (config m) = SkipOnError c
    \<and> Skipper (config m) \<noteq> None \<and> Key (config m) \<noteq> None
    \<and> Handler (config m) \<noteq> None \<and> ErrHandler (config m) \<noteq> None
    \<and> Max_n (config m) \<noteq> 0 \<and> Burst (config m) \<noteq> 0 \<and> StatusCode (config m) \<noteq> 0
    \<and> Period (config m) \<noteq> 0 \<and> Message (config m) \<noteq> [] \<and> Prefix (config m) \<noteq> []
    \<and> (Algorithm (config m) = 0) = (Algorithm c = 0 \<and> SlidingWindowAlgorithm E = 0)
    \<and> limit m = \<lparr>Limit_Period = Period (config m), Limit_Algorithm = Algorithm (config m),
                   Rate = Max_n (config m), Limit_Burst = Burst (config m)\<rparr>"
proof -
  note f = NewWithConfig_config [OF assms]
  have red: "Rediser c \<noteq> None"
    using NewWithConfig_Inr [of E c] assms by blast
  have nz: "Max_n (config m) \<noteq> 0" "Burst (config m) \<noteq> 0" "StatusCode (config m) \<noteq> 0"
    "Period (config m) \<noteq> 0" "Message (config m) \<noteq> []" "Prefix (config m) \<noteq> []"
    using f(3,4,5,6,8,10) by (simp_all split: if_splits)
  have alg: "(Algorithm (config m) = 0) = (Algorithm c = 0 \<and> SlidingWindowAlgorithm E = 0)"
    using f(7) by auto
  have per: "Period (config m) = (if Period c = 0 then 60 * 1000000000 else Period c)"
    using f(10) by simp
  have fs: "Skipper (config m) \<noteq> None" "Key (config m) \<noteq> None"
    "Handler (config m) \<noteq> None" "ErrHandler (config m) \<noteq> None"
    using f(1,11,12) NewWithConfig_Handler [OF assms] by simp_all
  show ?thesis
    using f(1-9) f(11,12) per NewWithConfig_Handler [OF assms] red nz alg fs
      NewWithConfig_limit(1) [OF assms] DefaultSkipper_never [of r]
    by (simp only: simp_thms)
qed

text \<open>
  C7, on the configuration that holds the store handle and nothing else, with the sliding
  window constant 1.
\<close>

theorem NewWithConfig_zero_config_witness:
  "map_option (\<lambda>c. (Max_n c, Burst c, StatusCode c, Message c, Algorithm c, Prefix c, Period c,
                     SkipOnError c))
     (resolved (example_env 1 allowed_answer) zero_config) =
   Some (10, 10, 429, ''Too many requests, please try again later.'', 1, ''http_limiter'',
         60000000000, False)
 \<and> map_option (\<lambda>c. Skipper c = Some DefaultSkipper
                  \<and> Key c = Some (DefaultConfig_Key (example_env 1 allowed_answer))
                  \<and> Handler c = Some (defaultHandler (example_env 1 allowed_answer) c)
                  \<and> ErrHandler c = Some (defaultErrHandler (example_env 1 allowed_answer)))
     (resolved (example_env 1 allowed_answer) zero_config) = Some True"
proof -
  let ?E = "example_env 1 allowed_answer"
  have "Rediser zero_config \<noteq> None" by (simp add: zero_config_def)
  then obtain m where m: "NewWithConfig ?E zero_config = Inr m"
    using NewWithConfig_Inr [of ?E zero_config] by blast
  have z: "Skipper zero_config = None" "Key zero_config = None" "Handler zero_config = None"
    "ErrHandler zero_config = None" "Max_n zero_config = 0" "Burst zero_config = 0"
    "StatusCode zero_config = 0" "Message zero_config = []" "Algorithm zero_config = 0"
    "Prefix zero_config = []" "Period zero_config = 0" "SkipOnError zero_config = False"
    by (simp_all add: zero_config_def)
  from NewWithConfig_replaces_zero_fields [OF m, of example_request]
  show ?thesis
    using m by (simp add: resolved_def z)
qed

text \<open>
  C7 does not hold as it is worded: the resolved configuration can have fields at their
  zero value. With the sliding window constant 0, an algorithm left at 0 stays 0; and
  whatever the constant, skip-on-error left false stays false.
\<close>

theorem NewWithConfig_zero_field_counterexample:
  "map_option (\<lambda>c. (Algorithm c, SkipOnError c))
     (resolved (example_env 0 allowed_answer) zero_config) = Some (0, False)
 \<and> map_option (\<lambda>c. (Algorithm c, SkipOnError c))
     (resolved (example_env 1 allowed_answer) zero_config) = Some (1, False)"
proof -
  have one: "map_option (\<lambda>c. (Algorithm c, SkipOnError c))
     (resolved (example_env sw allowed_answer) zero_config) = Some (sw, False)" for sw
  proof -
    let ?E = "example_env sw allowed_answer"
    have "Rediser zero_config \<noteq> None" by (simp add: zero_config_def)
    then obtain m where m: "NewWithConfig ?E zero_config = Inr m"
      using NewWithConfig_Inr [of ?E zero_config] by blast
    show ?thesis
      using m NewWithConfig_config(7,9) [OF m]
      by (simp add: resolved_def zero_config_def)
  qed
  show ?thesis using one [of 0] one [of 1] by simp
qed

text \<open>
  C8. \<^verbatim>\<open>NewWithConfig\<close> panics with the error \<^verbatim>\<open>redis client is missing\<close> exactly when
  the configuration has no store handle, and returns a middleware exactly when it has
  one; \<^verbatim>\<open>New(nil)\<close> panics likewise. The check is the first statement of the function,
  and after the panic there is no handler: no request is served.
\<close>

theorem missing_Rediser_panics:
  "(NewWithConfig E c = Inl p) =
     (Rediser c = None \<and> p = Panic (errors_New ''redis client is missing''))
 \<and> (\<exists>m. NewWithConfig E c = Inr m) = (Rediser c \<noteq> None)
 \<and> NewWithConfig E (c\<lparr>Rediser := None\<rparr>) = Inl (Panic (errors_New ''redis client is missing''))
 \<and> New E None = Inl (Panic (errors_New ''redis client is missing''))
 \<and> (serve E c inner w r = Inl p) =
     (Rediser c = None \<and> p = Panic (errors_New ''redis client is missing''))
 \<and> serve E (c\<lparr>Rediser := None\<rparr>) inner w r =
     Inl (Panic (errors_New ''redis client is missing''))"
proof (intro conjI)
  show a: "(NewWithConfig E c = Inl p) =
     (Rediser c = None \<and> p = Panic (errors_New ''redis client is missing''))" for c p
    by (rule NewWithConfig_Inl)
  show "(\<exists>m. NewWithConfig E c = Inr m) = (Rediser c \<noteq> None)"
    by (rule NewWithConfig_Inr)
  show b: "NewWithConfig E (c\<lparr>Rediser := None\<rparr>) =
      Inl (Panic (errors_New ''redis client is missing''))" for c
    by (simp add: NewWithConfig_def)
  show "New E None = Inl (Panic (errors_New ''redis client is missing''))"
    unfolding New_def by (rule b)
  show "(serve E c inner w r = Inl p) =
     (Rediser c = None \<and> p = Panic (errors_New ''redis client is missing''))"
    using a [of c p] by (cases "NewWithConfig E c") (auto simp: serve_def)
  show "serve E (c\<lparr>Rediser := None\<rparr>) inner w r =
     Inl (Panic (errors_New ''redis client is missing''))"
    by (simp add: serve_def b)
qed



end
